theory Spec2Isabelle
  imports Main
begin

section \<open>Data model\<close>

text \<open>
  The persisted entities of \<^verbatim>\<open>prisma/schema.prisma\<close>. Statuses are strings, as the schema
  declares them. The \<^verbatim>\<open>HistoryEntry\<close> rows of a request are kept with the request, oldest
  first, each reduced to its \<^verbatim>\<open>status\<close>: a nested \<^verbatim>\<open>history: { create: ... }\<close> appends one.
  Timestamps and the generated ids of history entries are left out: no operation reads them.
\<close>

datatype error = Error (message: string)

record withdrawalRequest =
  wr_id :: string
  wr_requestId :: string
  wr_status :: string
  wr_treasuryContractAddress :: string
  wr_destinationAddress :: string
  wr_tokenContractAddress :: string
  wr_amount :: string
  wr_partiallySignedTx :: string
  wr_txHash :: "string option"
  wr_errorMessage :: "string option"
  wr_history :: "string list"

record rawTransactionBroadcast =
  rtb_id :: string
  rtb_clientId :: "string option"
  rtb_rawTx :: string
  rtb_txHash :: "string option"
  rtb_status :: string
  rtb_errorMessage :: "string option"

text \<open>A broker job: its id, the payload \<^verbatim>\<open>{ dbId }\<close> and the attempt counter.\<close>

record job =
  job_id :: string
  job_dbId :: string
  attemptsMade :: nat

text \<open>
  The \<^verbatim>\<open>data\<close> argument of a Prisma update: a field that is \<open>None\<close> is not written.
  \<open>d_errorMessage = Some None\<close> writes \<^verbatim>\<open>null\<close>.
\<close>

record withdrawalRequest_data =
  d_status :: "string option"
  d_txHash :: "string option"
  d_errorMessage :: "string option option"
  d_history_create :: "string option"

record rawTransactionBroadcast_data =
  rd_status :: "string option"
  rd_txHash :: "string option"
  rd_errorMessage :: "string option"

text \<open>
  The chain client (ethers) as one delivery sees it: every call either raises or returns.
  \<open>decimals\<close> is \<^verbatim>\<open>tokenContract.decimals()\<close> of the token at the given address,
  \<open>transfer\<close> takes the signer, the token address, the destination, the amount and the
  fee overrides, and \<open>tx_wait\<close> is \<^verbatim>\<open>txResponse.wait(confirms)\<close>.
\<close>

record feeData =
  gasPrice :: "int option"
  maxFeePerGas :: "int option"
  maxPriorityFeePerGas :: "int option"

record txOverrides =
  o_maxFeePerGas :: "int option"
  o_maxPriorityFeePerGas :: "int option"

record txResponse =
  tx_hash :: string
  tx_wait :: "nat \<Rightarrow> error + unit"

record ethers =
  parseUnits :: "string \<Rightarrow> nat \<Rightarrow> error + int"
  decimals :: "string \<Rightarrow> error + nat"
  getFeeData :: "error + feeData"
  transfer :: "string \<Rightarrow> string \<Rightarrow> string \<Rightarrow> int \<Rightarrow> txOverrides \<Rightarrow> error + txResponse"
  broadcastTransaction :: "string \<Rightarrow> error + txResponse"

text \<open>
  What a delivery depends on before it reaches its \<^verbatim>\<open>try\<close> block, besides the rows: the
  load of worker.js line 26 is a call to the store and may reject, and lines 35-38 build
  the provider and the signing wallet from the process configuration, where
  \<^verbatim>\<open>new ethers.Wallet(process.env.SERVICE_WALLET_PRIVATE_KEY, provider)\<close> raises on a missing
  or malformed key and otherwise gives the signer. Neither error is caught by the handler.
\<close>

record runtime =
  findUnique_error :: "error option"
  Wallet :: "error + string"

record alert_details =
  a_jobId :: string
  a_databaseId :: string
  a_attempts :: nat
  a_error :: string

text \<open>
  What the worker process does to its collaborators, in the order it does it: writes to
  the store, calls to the chain client, alerts.
\<close>

datatype effect =
    Update_withdrawalRequest string withdrawalRequest_data
  | Update_rawTransactionBroadcast string rawTransactionBroadcast_data
  | Call_decimals string
  | Call_getFeeData
  | Call_transfer string string string int txOverrides
  | Call_wait string nat
  | Call_broadcastTransaction string
  | SendAlert string alert_details

record world =
  withdrawalRequests :: "withdrawalRequest list"
  rawTransactionBroadcasts :: "rawTransactionBroadcast list"
  withdrawalQueue :: "job list"
  rawTxBroadcastQueue :: "job list"
  effects :: "effect list"

section \<open>The request store\<close>

definition apply_data :: "withdrawalRequest_data \<Rightarrow> withdrawalRequest \<Rightarrow> withdrawalRequest" where
  "apply_data d r =
     r\<lparr>wr_status := (case d_status d of None \<Rightarrow> wr_status r | Some s \<Rightarrow> s),
       wr_txHash := (case d_txHash d of None \<Rightarrow> wr_txHash r | Some h \<Rightarrow> Some h),
       wr_errorMessage := (case d_errorMessage d of None \<Rightarrow> wr_errorMessage r | Some m \<Rightarrow> m),
       wr_history := (case d_history_create d of None \<Rightarrow> wr_history r | Some s \<Rightarrow> wr_history r @ [s])\<rparr>"

definition apply_raw_data :: "rawTransactionBroadcast_data \<Rightarrow> rawTransactionBroadcast \<Rightarrow> rawTransactionBroadcast" where
  "apply_raw_data d r =
     r\<lparr>rtb_status := (case rd_status d of None \<Rightarrow> rtb_status r | Some s \<Rightarrow> s),
       rtb_txHash := (case rd_txHash d of None \<Rightarrow> rtb_txHash r | Some h \<Rightarrow> Some h),
       rtb_errorMessage := (case rd_errorMessage d of None \<Rightarrow> rtb_errorMessage r | Some m \<Rightarrow> Some m)\<rparr>"

definition RecordNotFound :: error where
  "RecordNotFound = Error ''Record to update not found.''"

definition UniqueConstraint :: error where
  "UniqueConstraint = Error ''Unique constraint failed''"

definition findUnique_withdrawalRequest :: "string \<Rightarrow> world \<Rightarrow> withdrawalRequest option" where
  "findUnique_withdrawalRequest k w = find (\<lambda>r. wr_id r = k) (withdrawalRequests w)"

definition findUnique_by_requestId :: "string \<Rightarrow> world \<Rightarrow> withdrawalRequest option" where
  "findUnique_by_requestId k w = find (\<lambda>r. wr_requestId r = k) (withdrawalRequests w)"

definition findUnique_rawTransactionBroadcast :: "string \<Rightarrow> world \<Rightarrow> rawTransactionBroadcast option" where
  "findUnique_rawTransactionBroadcast k w = find (\<lambda>r. rtb_id r = k) (rawTransactionBroadcasts w)"

text \<open>
  \<^verbatim>\<open>prisma.withdrawalRequest.update({ where: { id }, data })\<close>: raises when no row has the
  id, otherwise rewrites that row. The worker's writes are logged.
\<close>

definition update_withdrawalRequest :: "string \<Rightarrow> withdrawalRequest_data \<Rightarrow> world \<Rightarrow> error + world" where
  "update_withdrawalRequest k d w =
     (if list_ex (\<lambda>r. wr_id r = k) (withdrawalRequests w)
      then Inr (w\<lparr>withdrawalRequests := map (\<lambda>r. if wr_id r = k then apply_data d r else r) (withdrawalRequests w),
                  effects := effects w @ [Update_withdrawalRequest k d]\<rparr>)
      else Inl RecordNotFound)"

text \<open>
  \<^verbatim>\<open>prisma.rawTransactionBroadcast.update\<close>: \<^verbatim>\<open>txHash\<close> is declared \<^verbatim>\<open>@unique\<close>, so a
  write of a hash that another row already holds raises.
\<close>

definition update_rawTransactionBroadcast :: "string \<Rightarrow> rawTransactionBroadcast_data \<Rightarrow> world \<Rightarrow> error + world" where
  "update_rawTransactionBroadcast k d w =
     (if \<not> list_ex (\<lambda>r. rtb_id r = k) (rawTransactionBroadcasts w) then Inl RecordNotFound
      else if list_ex (\<lambda>r. rtb_id r \<noteq> k \<and> rd_txHash d \<noteq> None \<and> rtb_txHash r = rd_txHash d) (rawTransactionBroadcasts w)
      then Inl UniqueConstraint
      else Inr (w\<lparr>rawTransactionBroadcasts := map (\<lambda>r. if rtb_id r = k then apply_raw_data d r else r) (rawTransactionBroadcasts w),
                  effects := effects w @ [Update_rawTransactionBroadcast k d]\<rparr>))"

definition call :: "effect \<Rightarrow> world \<Rightarrow> world" where
  "call e w = w\<lparr>effects := effects w @ [e]\<rparr>"

definition calls :: "effect list \<Rightarrow> world \<Rightarrow> world" where
  "calls es w = w\<lparr>effects := effects w @ es\<rparr>"

section \<open>Transaction Processor (worker.js, multiSigWorker)\<close>

definition data_PROCESSING :: withdrawalRequest_data where
  "data_PROCESSING = \<lparr>d_status = Some ''PROCESSING'', d_txHash = None,
     d_errorMessage = Some None, d_history_create = Some ''PROCESSING''\<rparr>"

definition data_BROADCASTED :: "string \<Rightarrow> withdrawalRequest_data" where
  "data_BROADCASTED h = \<lparr>d_status = Some ''BROADCASTED'', d_txHash = Some h,
     d_errorMessage = None, d_history_create = Some ''BROADCASTED''\<rparr>"

definition data_COMPLETED :: withdrawalRequest_data where
  "data_COMPLETED = \<lparr>d_status = Some ''COMPLETED'', d_txHash = None,
     d_errorMessage = None, d_history_create = Some ''COMPLETED''\<rparr>"

definition data_FAILED :: "string \<Rightarrow> withdrawalRequest_data" where
  "data_FAILED m = \<lparr>d_status = Some ''FAILED'', d_txHash = None,
     d_errorMessage = Some (Some m), d_history_create = Some ''FAILED''\<rparr>"

definition data_CANCELLED :: withdrawalRequest_data where
  "data_CANCELLED = \<lparr>d_status = Some ''CANCELLED'', d_txHash = None,
     d_errorMessage = None, d_history_create = Some ''CANCELLED''\<rparr>"

text \<open>
  \<^verbatim>\<open>ethers.formatUnits\<close> in the fee log line (worker.js line 64) raises on a fee field the
  node did not report (\<^verbatim>\<open>null\<close>).
\<close>

definition InvalidBigNumberish :: error where
  "InvalidBigNumberish = Error ''invalid BigNumberish value''"

text \<open>
  The submission (worker.js lines 55-76): decimals, amount, fee data, transfer. It does not
  touch the store; it returns the transaction response or the error, and the calls made.
\<close>

definition submit_transfer ::
  "string \<Rightarrow> ethers \<Rightarrow> withdrawalRequest \<Rightarrow> (error + txResponse) \<times> effect list" where
  "submit_transfer serviceWallet eth request =
     (let c1 = [Call_decimals (wr_tokenContractAddress request)] in
      case decimals eth (wr_tokenContractAddress request) of
        Inl e \<Rightarrow> (Inl e, c1)
      | Inr dec \<Rightarrow>
     (case parseUnits eth (wr_amount request) dec of
        Inl e \<Rightarrow> (Inl e, c1)
      | Inr tokenAmount \<Rightarrow>
     (let c2 = c1 @ [Call_getFeeData] in
      case getFeeData eth of
        Inl e \<Rightarrow> (Inl e, c2)
      | Inr fd \<Rightarrow>
     (if maxFeePerGas fd = None \<or> maxPriorityFeePerGas fd = None then (Inl InvalidBigNumberish, c2)
      else
     (let txo = \<lparr>o_maxFeePerGas = maxFeePerGas fd, o_maxPriorityFeePerGas = maxPriorityFeePerGas fd\<rparr>;
          c3 = c2 @ [Call_transfer serviceWallet (wr_tokenContractAddress request)
                       (wr_destinationAddress request) tokenAmount txo] in
      case transfer eth serviceWallet (wr_tokenContractAddress request)
             (wr_destinationAddress request) tokenAmount txo of
        Inl e \<Rightarrow> (Inl e, c3)
      | Inr txr \<Rightarrow> (Inr txr, c3))))))"

text \<open>
  The \<^verbatim>\<open>try\<close> block of the job handler (worker.js lines 42-99), run with the row
  \<open>request\<close> that was loaded before it. Every error is rethrown; writes made before the
  error stay.
\<close>

definition multiSigWorker_try ::
  "string \<Rightarrow> ethers \<Rightarrow> job \<Rightarrow> withdrawalRequest \<Rightarrow> world \<Rightarrow> (error + unit) \<times> world" where
  "multiSigWorker_try serviceWallet eth jb request w0 =
     (case (if attemptsMade jb = 0 then update_withdrawalRequest (job_dbId jb) data_PROCESSING w0
            else Inr w0) of
        Inl e \<Rightarrow> (Inl e, w0)
      | Inr w1 \<Rightarrow>
     (let w4 = calls (snd (submit_transfer serviceWallet eth request)) w1 in
      case fst (submit_transfer serviceWallet eth request) of
        Inl e \<Rightarrow> (Inl e, w4)
      | Inr txr \<Rightarrow>
     (case update_withdrawalRequest (job_dbId jb) (data_BROADCASTED (tx_hash txr)) w4 of
        Inl e \<Rightarrow> (Inl e, w4)
      | Inr w5 \<Rightarrow>
     (let w6 = call (Call_wait (tx_hash txr) 1) w5 in
      case tx_wait txr 1 of
        Inl e \<Rightarrow> (Inl e, w6)
      | Inr _ \<Rightarrow>
     (case update_withdrawalRequest (job_dbId jb) data_COMPLETED w6 of
        Inl e \<Rightarrow> (Inl e, w6)
      | Inr w7 \<Rightarrow> (Inr (), w7))))))"

text \<open>
  The load of line 26, \<^verbatim>\<open>await prisma.withdrawalRequest.findUnique({ where: { id: dbId } })\<close>:
  it rejects when the store does, and otherwise gives the row with the id, if there is one.
\<close>

definition load_withdrawalRequest :: "runtime \<Rightarrow> string \<Rightarrow> world \<Rightarrow> error + withdrawalRequest option" where
  "load_withdrawalRequest rt k w =
     (case findUnique_error rt of
        Some e \<Rightarrow> Inl e
      | None \<Rightarrow> Inr (findUnique_withdrawalRequest k w))"

text \<open>
  The job handler (worker.js lines 22-100): the load, the skip guard, the construction of
  the provider and the service wallet, then the \<^verbatim>\<open>try\<close> block. An error of the load or of
  the wallet construction leaves the handler before anything is written.
\<close>

definition multiSigWorker_process ::
  "runtime \<Rightarrow> ethers \<Rightarrow> job \<Rightarrow> world \<Rightarrow> (error + unit) \<times> world" where
  "multiSigWorker_process rt eth jb w =
     (case load_withdrawalRequest rt (job_dbId jb) w of
        Inl e \<Rightarrow> (Inl e, w)
      | Inr None \<Rightarrow> (Inr (), w)
      | Inr (Some request) \<Rightarrow>
          if wr_status request \<in> set [''COMPLETED'', ''CANCELLED''] then (Inr (), w)
          else
           (case Wallet rt of
              Inl e \<Rightarrow> (Inl e, w)
            | Inr serviceWallet \<Rightarrow> multiSigWorker_try serviceWallet eth jb request w))"

text \<open>
  The \<^verbatim>\<open>failed\<close> listener of the worker (worker.js lines 165-175): one unconditional
  update, then the alert. When the update raises, the alert is not reached.
  \<^verbatim>\<open>alertingService.sendAlert\<close> prints the alert; its webhook branch is empty.
\<close>

definition sendAlert :: "string \<Rightarrow> alert_details \<Rightarrow> world \<Rightarrow> world" where
  "sendAlert title details w = call (SendAlert title details) w"

definition multiSigWorker_on_failed :: "job \<Rightarrow> error \<Rightarrow> world \<Rightarrow> (error + unit) \<times> world" where
  "multiSigWorker_on_failed jb err w =
     (case update_withdrawalRequest (job_dbId jb) (data_FAILED (message err)) w of
        Inl e \<Rightarrow> (Inl e, w)
      | Inr w1 \<Rightarrow>
          (Inr (), sendAlert ''Multi-Sig Withdrawal Job Failed''
             \<lparr>a_jobId = job_id jb, a_databaseId = job_dbId jb,
              a_attempts = attemptsMade jb + 1, a_error = message err\<rparr> w1))"

section \<open>Raw Broadcast Processor (worker.js, rawTxBroadcastWorker)\<close>

definition rawTxBroadcastWorker_process :: "ethers \<Rightarrow> job \<Rightarrow> world \<Rightarrow> (error + unit) \<times> world" where
  "rawTxBroadcastWorker_process eth jb w =
     (case findUnique_rawTransactionBroadcast (job_dbId jb) w of
        None \<Rightarrow> (Inr (), w)
      | Some request \<Rightarrow>
          if rtb_status request \<noteq> ''PENDING'' then (Inr (), w)
          else
         (let w1 = call (Call_broadcastTransaction (rtb_rawTx request)) w in
          case broadcastTransaction eth (rtb_rawTx request) of
            Inl e \<Rightarrow> (Inl e, w1)
          | Inr txr \<Rightarrow>
         (case update_rawTransactionBroadcast (job_dbId jb)
                 \<lparr>rd_status = Some ''BROADCASTED'', rd_txHash = Some (tx_hash txr), rd_errorMessage = None\<rparr> w1 of
            Inl e \<Rightarrow> (Inl e, w1)
          | Inr w2 \<Rightarrow>
         (let w3 = call (Call_wait (tx_hash txr) 1) w2 in
          case tx_wait txr 1 of
            Inl e \<Rightarrow> (Inl e, w3)
          | Inr _ \<Rightarrow>
         (case update_rawTransactionBroadcast (job_dbId jb)
                 \<lparr>rd_status = Some ''CONFIRMED'', rd_txHash = None, rd_errorMessage = None\<rparr> w3 of
            Inl e \<Rightarrow> (Inl e, w3)
          | Inr w4 \<Rightarrow> (Inr (), w4))))))"

definition rawTxBroadcastWorker_on_failed :: "job \<Rightarrow> error \<Rightarrow> world \<Rightarrow> (error + unit) \<times> world" where
  "rawTxBroadcastWorker_on_failed jb err w =
     (case update_rawTransactionBroadcast (job_dbId jb)
             \<lparr>rd_status = Some ''FAILED'', rd_txHash = None, rd_errorMessage = Some (message err)\<rparr> w of
        Inl e \<Rightarrow> (Inl e, w)
      | Inr w1 \<Rightarrow>
          (Inr (), sendAlert ''Raw Transaction Broadcast Job Failed''
             \<lparr>a_jobId = job_id jb, a_databaseId = job_dbId jb,
              a_attempts = attemptsMade jb + 1, a_error = message err\<rparr> w1))"

section \<open>Withdrawal Manager (services/withdrawal_manager.js)\<close>

record requestData =
  request_id :: string
  treasury_contract_address :: string
  destination_address :: string
  token_contract_address :: string
  amount :: string
  partially_signed_tx :: string

text \<open>
  \<^verbatim>\<open>prisma.withdrawalRequest.create\<close>: the id is generated (\<^verbatim>\<open>cuid()\<close>, here the argument
  \<open>new_id\<close>), the status takes its default, and both \<^verbatim>\<open>id\<close> and \<^verbatim>\<open>requestId\<close> are unique.
\<close>

definition new_withdrawalRequest :: "string \<Rightarrow> requestData \<Rightarrow> withdrawalRequest" where
  "new_withdrawalRequest new_id rd =
     \<lparr>wr_id = new_id, wr_requestId = request_id rd, wr_status = ''PENDING_SIGNATURE'',
      wr_treasuryContractAddress = treasury_contract_address rd,
      wr_destinationAddress = destination_address rd,
      wr_tokenContractAddress = token_contract_address rd,
      wr_amount = amount rd, wr_partiallySignedTx = partially_signed_tx rd,
      wr_txHash = None, wr_errorMessage = None, wr_history = [''PENDING_SIGNATURE'']\<rparr>"

definition create_withdrawalRequest :: "withdrawalRequest \<Rightarrow> world \<Rightarrow> error + world" where
  "create_withdrawalRequest r w =
     (if list_ex (\<lambda>x. wr_id x = wr_id r \<or> wr_requestId x = wr_requestId r) (withdrawalRequests w)
      then Inl UniqueConstraint
      else Inr (w\<lparr>withdrawalRequests := withdrawalRequests w @ [r]\<rparr>))"

text \<open>
  \<^verbatim>\<open>processNewRequest\<close> (lines 46-74). The job is added with its payload only, no job
  options; the broker gives it the id \<open>new_job_id\<close> and the attempt counter 0. Of the
  returned object the model keeps the request id (\<^verbatim>\<open>receivedAt\<close> is a clock reading).
\<close>

definition processNewRequest :: "string \<Rightarrow> string \<Rightarrow> requestData \<Rightarrow> world \<Rightarrow> (error + string) \<times> world" where
  "processNewRequest new_id new_job_id rd w =
     (case findUnique_by_requestId (request_id rd) w of
        Some existingRequest \<Rightarrow>
          (Inl (Error ''Duplicate request_id. This request has already been submitted.''), w)
      | None \<Rightarrow>
         (case create_withdrawalRequest (new_withdrawalRequest new_id rd) w of
            Inl e \<Rightarrow> (Inl e, w)
          | Inr w1 \<Rightarrow>
              (Inr (request_id rd),
               w1\<lparr>withdrawalQueue := withdrawalQueue w1 @
                    [\<lparr>job_id = new_job_id, job_dbId = new_id, attemptsMade = 0\<rparr>]\<rparr>)))"

text \<open>
  \<^verbatim>\<open>cancelRequest\<close> (lines 80-102): its update addresses the row by \<^verbatim>\<open>requestId\<close>; it
  returns the request id and the status of the updated row.
\<close>

definition update_by_requestId :: "string \<Rightarrow> withdrawalRequest_data \<Rightarrow> world \<Rightarrow> error + withdrawalRequest \<times> world" where
  "update_by_requestId k d w =
     (case findUnique_by_requestId k w of
        None \<Rightarrow> Inl RecordNotFound
      | Some r \<Rightarrow>
          Inr (apply_data d r,
               w\<lparr>withdrawalRequests :=
                    map (\<lambda>x. if wr_requestId x = k then apply_data d x else x) (withdrawalRequests w)\<rparr>))"

definition cancel_conflict :: "string \<Rightarrow> error" where
  "cancel_conflict st =
     Error (''Cannot cancel request. Status is already '' @ [CHR 0x27] @ st @ [CHR 0x27] @ ''.'')"

definition cancelRequest :: "string \<Rightarrow> world \<Rightarrow> (error + string \<times> string) \<times> world" where
  "cancelRequest requestId w =
     (case findUnique_by_requestId requestId w of
        None \<Rightarrow> (Inl (Error ''Request not found.''), w)
      | Some request \<Rightarrow>
          if wr_status request \<noteq> ''PENDING_SIGNATURE'' then (Inl (cancel_conflict (wr_status request)), w)
          else
           (case update_by_requestId requestId data_CANCELLED w of
              Inl e \<Rightarrow> (Inl e, w)
            | Inr (updatedRequest, w1) \<Rightarrow>
                (Inr (wr_requestId updatedRequest, wr_status updatedRequest), w1)))"

section \<open>Example values\<close>

text \<open>
  The request of the repository's example call (amount \<^verbatim>\<open>"1500.00"\<close>), a token with six
  decimals, chain clients that answer every call, fail at submission, or fail at the
  confirmation wait, and runtimes in which the store answers and the wallet is built, the
  store rejects the load, or the wallet construction raises.
\<close>

definition ex_data :: requestData where
  "ex_data = \<lparr>request_id = ''bank-tx-id-12345-abcdef'', treasury_contract_address = ''0xT'',
     destination_address = ''0xD'', token_contract_address = ''0xU'', amount = ''1500.00'',
     partially_signed_tx = ''0x5157''\<rparr>"

definition ex_fees :: feeData where
  "ex_fees = \<lparr>gasPrice = Some 7, maxFeePerGas = Some 30, maxPriorityFeePerGas = Some 2\<rparr>"

definition ex_tx :: txResponse where
  "ex_tx = \<lparr>tx_hash = ''0xhash'', tx_wait = (\<lambda>n. Inr ())\<rparr>"

definition ex_tx_unconfirmed :: txResponse where
  "ex_tx_unconfirmed = \<lparr>tx_hash = ''0xhash'', tx_wait = (\<lambda>n. Inl (Error ''timeout''))\<rparr>"

definition eth_ok :: ethers where
  "eth_ok = \<lparr>parseUnits = (\<lambda>s d. if s = ''1500.00'' \<and> d = 6 then Inr 1500000000 else Inl (Error ''invalid'')),
     decimals = (\<lambda>a. Inr 6), getFeeData = Inr ex_fees,
     transfer = (\<lambda>signer token to amt ov. Inr ex_tx),
     broadcastTransaction = (\<lambda>raw. Inr ex_tx)\<rparr>"

definition eth_down :: ethers where
  "eth_down = eth_ok\<lparr>transfer := (\<lambda>signer token to amt ov. Inl (Error ''nonce too low'')),
     broadcastTransaction := (\<lambda>raw. Inl (Error ''nonce too low''))\<rparr>"

definition eth_unconfirmed :: ethers where
  "eth_unconfirmed = eth_ok\<lparr>transfer := (\<lambda>signer token to amt ov. Inr ex_tx_unconfirmed),
     broadcastTransaction := (\<lambda>raw. Inr ex_tx_unconfirmed)\<rparr>"

definition rt_ok :: runtime where
  "rt_ok = \<lparr>findUnique_error = None, Wallet = Inr ''key''\<rparr>"

definition rt_store_down :: runtime where
  "rt_store_down = rt_ok\<lparr>findUnique_error := Some (Error ''Can not reach database server'')\<rparr>"

definition rt_no_key :: runtime where
  "rt_no_key = rt_ok\<lparr>Wallet := Inl (Error ''invalid private key'')\<rparr>"

definition ex_job :: job where
  "ex_job = \<lparr>job_id = ''1'', job_dbId = ''c1'', attemptsMade = 0\<rparr>"

definition empty_world :: world where
  "empty_world = \<lparr>withdrawalRequests = [], rawTransactionBroadcasts = [], withdrawalQueue = [],
     rawTxBroadcastQueue = [], effects = []\<rparr>"

definition ex_world :: "string \<Rightarrow> world" where
  "ex_world st = empty_world\<lparr>withdrawalRequests :=
     [(new_withdrawalRequest ''c1'' ex_data)\<lparr>wr_status := st\<rparr>]\<rparr>"

definition ex_raw_job :: job where
  "ex_raw_job = \<lparr>job_id = ''7'', job_dbId = ''b1'', attemptsMade = 0\<rparr>"

definition ex_raw_row :: rawTransactionBroadcast where
  "ex_raw_row = \<lparr>rtb_id = ''b1'', rtb_clientId = None, rtb_rawTx = ''0x02f8'', rtb_txHash = None,
     rtb_status = ''PENDING'', rtb_errorMessage = None\<rparr>"

definition ex_raw_world :: world where
  "ex_raw_world = empty_world\<lparr>rawTransactionBroadcasts := [ex_raw_row]\<rparr>"

section \<open>Store lemmas\<close>

lemma find_map_update:
  "(\<And>x. p (f x) = p x) \<Longrightarrow> find p (map (\<lambda>x. if p x then f x else x) xs) = map_option f (find p xs)"
  by (induction xs) auto

lemma find_Some_list_ex: "find p xs = Some r \<Longrightarrow> list_ex p xs"
  by (auto simp: find_Some_iff list_ex_iff)

lemma wr_requestId_apply_data [simp]: "wr_requestId (apply_data d r) = wr_requestId r"
  by (simp add: apply_data_def)

lemma wr_id_apply_data [simp]: "wr_id (apply_data d r) = wr_id r"
  by (simp add: apply_data_def)

lemma apply_data_CANCELLED:
  "apply_data data_CANCELLED r = r\<lparr>wr_status := ''CANCELLED'', wr_history := wr_history r @ [''CANCELLED'']\<rparr>"
  by (simp add: apply_data_def data_CANCELLED_def)

lemma effects_call [simp]: "effects (call e w) = effects w @ [e]"
  by (simp add: call_def)

lemma withdrawalRequests_call [simp]: "withdrawalRequests (call e w) = withdrawalRequests w"
  by (simp add: call_def)

lemma rawTransactionBroadcasts_call [simp]: "rawTransactionBroadcasts (call e w) = rawTransactionBroadcasts w"
  by (simp add: call_def)

lemma findUnique_raw_call [simp]:
  "findUnique_rawTransactionBroadcast k (call e w) = findUnique_rawTransactionBroadcast k w"
  by (simp add: call_def findUnique_rawTransactionBroadcast_def)

lemma effects_calls [simp]: "effects (calls es w) = effects w @ es"
  by (simp add: calls_def)

lemma withdrawalRequests_calls [simp]: "withdrawalRequests (calls es w) = withdrawalRequests w"
  by (simp add: calls_def)

lemma findUnique_calls [simp]:
  "findUnique_withdrawalRequest k (calls es w) = findUnique_withdrawalRequest k w"
  by (simp add: calls_def findUnique_withdrawalRequest_def)

lemma findUnique_call [simp]:
  "findUnique_withdrawalRequest k (call e w) = findUnique_withdrawalRequest k w"
  by (simp add: call_def findUnique_withdrawalRequest_def)

lemma load_Some:
  "load_withdrawalRequest rt k w = Inr x \<longleftrightarrow> findUnique_error rt = None \<and> findUnique_withdrawalRequest k w = x"
  by (auto simp: load_withdrawalRequest_def split: option.splits)

lemma load_rt_ok [simp]: "load_withdrawalRequest rt_ok k w = Inr (findUnique_withdrawalRequest k w)"
  by (simp add: load_withdrawalRequest_def rt_ok_def)

section \<open>Skip guard\<close>

text \<open>
  C5. A delivery of a withdrawal job whose load finds the request absent, or with status
  COMPLETED or CANCELLED, returns successfully and leaves the world as it was: no store
  write, no call, no field of any request changed, no history entry appended. This holds
  whatever the chain client and the wallet configuration are: the guard returns before
  either is used.
\<close>

theorem skip_delivery_is_noop:
  assumes "load_withdrawalRequest rt (job_dbId jb) w = Inr None
           \<or> (\<exists>r. load_withdrawalRequest rt (job_dbId jb) w = Inr (Some r)
                  \<and> (wr_status r = ''COMPLETED'' \<or> wr_status r = ''CANCELLED''))"
  shows "multiSigWorker_process rt eth jb w = (Inr (), w)"
  using assms by (auto simp: multiSigWorker_process_def)

theorem skip_delivery_is_noop_witness:
  "(\<exists>r. load_withdrawalRequest rt_no_key (job_dbId ex_job) (ex_world ''COMPLETED'') = Inr (Some r)
        \<and> wr_status r = ''COMPLETED'')
   \<and> multiSigWorker_process rt_no_key eth_down ex_job (ex_world ''COMPLETED'')
       = (Inr (), ex_world ''COMPLETED'')"
proof -
  have h: "\<exists>r. load_withdrawalRequest rt_no_key (job_dbId ex_job) (ex_world ''COMPLETED'') = Inr (Some r)
        \<and> wr_status r = ''COMPLETED''"
    by (simp add: load_withdrawalRequest_def rt_no_key_def rt_ok_def findUnique_withdrawalRequest_def
        ex_job_def ex_world_def empty_world_def new_withdrawalRequest_def)
  from h skip_delivery_is_noop [of rt_no_key ex_job "ex_world ''COMPLETED''" eth_down]
  show ?thesis by blast
qed

section \<open>Cancel guard\<close>

text \<open>
  C8. \<^verbatim>\<open>cancelRequest\<close> on a stored request succeeds exactly when its status is
  PENDING_SIGNATURE: the row then gets status CANCELLED and one more history entry, and
  nothing else changes. For any other status it raises the conflict error that quotes the
  status, and the world is left as it was.
\<close>

theorem cancel_guard:
  assumes "findUnique_by_requestId rid w = Some r"
  shows "(wr_status r = ''PENDING_SIGNATURE'' \<longrightarrow>
            fst (cancelRequest rid w) = Inr (rid, ''CANCELLED'')
          \<and> snd (cancelRequest rid w) = w\<lparr>withdrawalRequests :=
               map (\<lambda>x. if wr_requestId x = rid
                         then x\<lparr>wr_status := ''CANCELLED'', wr_history := wr_history x @ [''CANCELLED'']\<rparr>
                         else x) (withdrawalRequests w)\<rparr>
          \<and> findUnique_by_requestId rid (snd (cancelRequest rid w))
              = Some (r\<lparr>wr_status := ''CANCELLED'', wr_history := wr_history r @ [''CANCELLED'']\<rparr>))
       \<and> (wr_status r \<noteq> ''PENDING_SIGNATURE'' \<longrightarrow>
            cancelRequest rid w = (Inl (cancel_conflict (wr_status r)), w))"
proof -
  from assms have rid: "wr_requestId r = rid"
    by (auto simp: findUnique_by_requestId_def find_Some_iff)
  have found: "findUnique_by_requestId rid
      (w\<lparr>withdrawalRequests := map (\<lambda>x. if wr_requestId x = rid then apply_data data_CANCELLED x else x)
          (withdrawalRequests w)\<rparr>) = Some (apply_data data_CANCELLED r)"
    using assms find_map_update [of "\<lambda>x. wr_requestId x = rid" "apply_data data_CANCELLED" "withdrawalRequests w"]
    by (simp add: findUnique_by_requestId_def)
  show ?thesis
    using assms rid found
    by (simp add: cancelRequest_def update_by_requestId_def apply_data_CANCELLED)
qed

lemma ex_world_by_requestId:
  "findUnique_by_requestId ''bank-tx-id-12345-abcdef'' (ex_world st)
     = Some ((new_withdrawalRequest ''c1'' ex_data)\<lparr>wr_status := st\<rparr>)"
  by (simp add: findUnique_by_requestId_def ex_world_def empty_world_def new_withdrawalRequest_def
      ex_data_def)

theorem cancel_guard_witness:
  "cancelRequest ''bank-tx-id-12345-abcdef'' (ex_world ''PROCESSING'')
     = (Inl (Error ''Cannot cancel request. Status is already 'PROCESSING'.''), ex_world ''PROCESSING'')
   \<and> fst (cancelRequest ''bank-tx-id-12345-abcdef'' (ex_world ''PENDING_SIGNATURE''))
       = Inr (''bank-tx-id-12345-abcdef'', ''CANCELLED'')
   \<and> map wr_history (withdrawalRequests
         (snd (cancelRequest ''bank-tx-id-12345-abcdef'' (ex_world ''PENDING_SIGNATURE''))))
       = [[''PENDING_SIGNATURE'', ''CANCELLED'']]"
  using cancel_guard [OF ex_world_by_requestId [of "''PROCESSING''"]]
    cancel_guard [OF ex_world_by_requestId [of "''PENDING_SIGNATURE''"]]
  by (simp add: cancel_conflict_def new_withdrawalRequest_def ex_world_def empty_world_def ex_data_def)

section \<open>Raw broadcast delivery\<close>

lemma rtb_id_apply_raw_data [simp]: "rtb_id (apply_raw_data d r) = rtb_id r"
  by (simp add: apply_raw_data_def)

lemma update_raw_ok:
  assumes "findUnique_rawTransactionBroadcast k w = Some r"
    and "\<not> list_ex (\<lambda>x. rtb_id x \<noteq> k \<and> rd_txHash d \<noteq> None \<and> rtb_txHash x = rd_txHash d) (rawTransactionBroadcasts w)"
  shows "\<exists>w'. update_rawTransactionBroadcast k d w = Inr w'
     \<and> findUnique_rawTransactionBroadcast k w' = Some (apply_raw_data d r)
     \<and> effects w' = effects w @ [Update_rawTransactionBroadcast k d]"
  using assms find_map_update [of "\<lambda>x. rtb_id x = k" "apply_raw_data d" "rawTransactionBroadcasts w"]
  by (auto simp: update_rawTransactionBroadcast_def findUnique_rawTransactionBroadcast_def
      dest: find_Some_list_ex)

lemma raw_skip:
  "findUnique_rawTransactionBroadcast (job_dbId jb) w = None
      \<or> (\<exists>r. findUnique_rawTransactionBroadcast (job_dbId jb) w = Some r \<and> rtb_status r \<noteq> ''PENDING'')
   \<Longrightarrow> rawTxBroadcastWorker_process eth jb w = (Inr (), w)"
  by (auto simp: rawTxBroadcastWorker_process_def)

lemma raw_broadcast_raises:
  assumes "findUnique_rawTransactionBroadcast (job_dbId jb) w = Some r" "rtb_status r = ''PENDING''"
    and "broadcastTransaction eth (rtb_rawTx r) = Inl e"
  shows "rawTxBroadcastWorker_process eth jb w = (Inl e, call (Call_broadcastTransaction (rtb_rawTx r)) w)"
  using assms by (simp add: rawTxBroadcastWorker_process_def)

lemma raw_hash_taken:
  assumes "findUnique_rawTransactionBroadcast (job_dbId jb) w = Some r" "rtb_status r = ''PENDING''"
    and "broadcastTransaction eth (rtb_rawTx r) = Inr txr"
    and "list_ex (\<lambda>x. rtb_id x \<noteq> job_dbId jb \<and> rtb_txHash x = Some (tx_hash txr)) (rawTransactionBroadcasts w)"
  shows "rawTxBroadcastWorker_process eth jb w
           = (Inl UniqueConstraint, call (Call_broadcastTransaction (rtb_rawTx r)) w)"
  using assms by (auto simp: rawTxBroadcastWorker_process_def update_rawTransactionBroadcast_def
          findUnique_rawTransactionBroadcast_def dest: find_Some_list_ex)

lemma raw_after_broadcast:
  assumes f: "findUnique_rawTransactionBroadcast (job_dbId jb) w = Some r" and p: "rtb_status r = ''PENDING''"
    and b: "broadcastTransaction eth (rtb_rawTx r) = Inr txr"
    and u: "\<not> list_ex (\<lambda>x. rtb_id x \<noteq> job_dbId jb \<and> rtb_txHash x = Some (tx_hash txr)) (rawTransactionBroadcasts w)"
  shows "(\<forall>e. tx_wait txr 1 = Inl e \<longrightarrow>
              fst (rawTxBroadcastWorker_process eth jb w) = Inl e
            \<and> findUnique_rawTransactionBroadcast (job_dbId jb) (snd (rawTxBroadcastWorker_process eth jb w))
                = Some (r\<lparr>rtb_status := ''BROADCASTED'', rtb_txHash := Some (tx_hash txr)\<rparr>)
            \<and> effects (snd (rawTxBroadcastWorker_process eth jb w))
                = effects w @ [Call_broadcastTransaction (rtb_rawTx r),
                    Update_rawTransactionBroadcast (job_dbId jb)
                      \<lparr>rd_status = Some ''BROADCASTED'', rd_txHash = Some (tx_hash txr), rd_errorMessage = None\<rparr>,
                    Call_wait (tx_hash txr) 1])
         \<and> (tx_wait txr 1 = Inr () \<longrightarrow>
              fst (rawTxBroadcastWorker_process eth jb w) = Inr ()
            \<and> findUnique_rawTransactionBroadcast (job_dbId jb) (snd (rawTxBroadcastWorker_process eth jb w))
                = Some (r\<lparr>rtb_status := ''CONFIRMED'', rtb_txHash := Some (tx_hash txr)\<rparr>)
            \<and> effects (snd (rawTxBroadcastWorker_process eth jb w))
                = effects w @ [Call_broadcastTransaction (rtb_rawTx r),
                    Update_rawTransactionBroadcast (job_dbId jb)
                      \<lparr>rd_status = Some ''BROADCASTED'', rd_txHash = Some (tx_hash txr), rd_errorMessage = None\<rparr>,
                    Call_wait (tx_hash txr) 1,
                    Update_rawTransactionBroadcast (job_dbId jb)
                      \<lparr>rd_status = Some ''CONFIRMED'', rd_txHash = None, rd_errorMessage = None\<rparr>])"
proof -
  let ?w1 = "call (Call_broadcastTransaction (rtb_rawTx r)) w"
  let ?d1 = "\<lparr>rd_status = Some ''BROADCASTED'', rd_txHash = Some (tx_hash txr), rd_errorMessage = None\<rparr>"
  let ?d2 = "\<lparr>rd_status = Some ''CONFIRMED'', rd_txHash = None, rd_errorMessage = None\<rparr>"
  from update_raw_ok [of "job_dbId jb" ?w1 r ?d1] f u
  obtain w2 where w2: "update_rawTransactionBroadcast (job_dbId jb) ?d1 ?w1 = Inr w2"
    "findUnique_rawTransactionBroadcast (job_dbId jb) w2 = Some (apply_raw_data ?d1 r)"
    "effects w2 = effects ?w1 @ [Update_rawTransactionBroadcast (job_dbId jb) ?d1]"
    by auto
  let ?w3 = "call (Call_wait (tx_hash txr) 1) w2"
  from update_raw_ok [of "job_dbId jb" ?w3 "apply_raw_data ?d1 r" ?d2] w2
  obtain w4 where w4: "update_rawTransactionBroadcast (job_dbId jb) ?d2 ?w3 = Inr w4"
    "findUnique_rawTransactionBroadcast (job_dbId jb) w4 = Some (apply_raw_data ?d2 (apply_raw_data ?d1 r))"
    "effects w4 = effects ?w3 @ [Update_rawTransactionBroadcast (job_dbId jb) ?d2]"
    by (auto simp: list_ex_iff)
  show ?thesis
    using f p b w2 w4
    by (simp add: rawTxBroadcastWorker_process_def apply_raw_data_def)
qed

text \<open>
  C9. A delivery of a raw-broadcast job is a no-op when the row is missing or its status
  is not PENDING. Otherwise the processor broadcasts the stored raw transaction, writes
  BROADCASTED with the returned hash, waits for one confirmation and writes CONFIRMED, in
  that order; an error of the broadcast, of the first write (the hash is unique in the
  table) or of the wait is the result of the delivery, and the writes made before it stay.
\<close>

theorem raw_delivery_steps:
  "(findUnique_rawTransactionBroadcast (job_dbId jb) w = None
      \<or> (\<exists>r. findUnique_rawTransactionBroadcast (job_dbId jb) w = Some r \<and> rtb_status r \<noteq> ''PENDING'')
     \<longrightarrow> rawTxBroadcastWorker_process eth jb w = (Inr (), w))
   \<and> (\<forall>r. findUnique_rawTransactionBroadcast (job_dbId jb) w = Some r \<and> rtb_status r = ''PENDING'' \<longrightarrow>
        (\<forall>e. broadcastTransaction eth (rtb_rawTx r) = Inl e \<longrightarrow>
           rawTxBroadcastWorker_process eth jb w = (Inl e, call (Call_broadcastTransaction (rtb_rawTx r)) w))
      \<and> (\<forall>txr. broadcastTransaction eth (rtb_rawTx r) = Inr txr
              \<and> list_ex (\<lambda>x. rtb_id x \<noteq> job_dbId jb \<and> rtb_txHash x = Some (tx_hash txr)) (rawTransactionBroadcasts w) \<longrightarrow>
           rawTxBroadcastWorker_process eth jb w
             = (Inl UniqueConstraint, call (Call_broadcastTransaction (rtb_rawTx r)) w))
      \<and> (\<forall>txr. broadcastTransaction eth (rtb_rawTx r) = Inr txr
              \<and> \<not> list_ex (\<lambda>x. rtb_id x \<noteq> job_dbId jb \<and> rtb_txHash x = Some (tx_hash txr)) (rawTransactionBroadcasts w) \<longrightarrow>
           (\<forall>e. tx_wait txr 1 = Inl e \<longrightarrow>
              fst (rawTxBroadcastWorker_process eth jb w) = Inl e
            \<and> findUnique_rawTransactionBroadcast (job_dbId jb) (snd (rawTxBroadcastWorker_process eth jb w))
                = Some (r\<lparr>rtb_status := ''BROADCASTED'', rtb_txHash := Some (tx_hash txr)\<rparr>)
            \<and> effects (snd (rawTxBroadcastWorker_process eth jb w))
                = effects w @ [Call_broadcastTransaction (rtb_rawTx r),
                    Update_rawTransactionBroadcast (job_dbId jb)
                      \<lparr>rd_status = Some ''BROADCASTED'', rd_txHash = Some (tx_hash txr), rd_errorMessage = None\<rparr>,
                    Call_wait (tx_hash txr) 1])
         \<and> (tx_wait txr 1 = Inr () \<longrightarrow>
              fst (rawTxBroadcastWorker_process eth jb w) = Inr ()
            \<and> findUnique_rawTransactionBroadcast (job_dbId jb) (snd (rawTxBroadcastWorker_process eth jb w))
                = Some (r\<lparr>rtb_status := ''CONFIRMED'', rtb_txHash := Some (tx_hash txr)\<rparr>)
            \<and> effects (snd (rawTxBroadcastWorker_process eth jb w))
                = effects w @ [Call_broadcastTransaction (rtb_rawTx r),
                    Update_rawTransactionBroadcast (job_dbId jb)
                      \<lparr>rd_status = Some ''BROADCASTED'', rd_txHash = Some (tx_hash txr), rd_errorMessage = None\<rparr>,
                    Call_wait (tx_hash txr) 1,
                    Update_rawTransactionBroadcast (job_dbId jb)
                      \<lparr>rd_status = Some ''CONFIRMED'', rd_txHash = None, rd_errorMessage = None\<rparr>])))"
proof (intro conjI allI impI; (elim conjE)?)
  assume "findUnique_rawTransactionBroadcast (job_dbId jb) w = None
      \<or> (\<exists>r. findUnique_rawTransactionBroadcast (job_dbId jb) w = Some r \<and> rtb_status r \<noteq> ''PENDING'')"
  then show "rawTxBroadcastWorker_process eth jb w = (Inr (), w)" by (rule raw_skip)
qed (use raw_broadcast_raises raw_hash_taken raw_after_broadcast in \<open>blast+\<close>)

theorem raw_delivery_steps_witness:
  "findUnique_rawTransactionBroadcast (job_dbId ex_raw_job) ex_raw_world = Some ex_raw_row
   \<and> rtb_status ex_raw_row = ''PENDING''
   \<and> fst (rawTxBroadcastWorker_process eth_ok ex_raw_job ex_raw_world) = Inr ()
   \<and> findUnique_rawTransactionBroadcast ''b1'' (snd (rawTxBroadcastWorker_process eth_ok ex_raw_job ex_raw_world))
       = Some (ex_raw_row\<lparr>rtb_status := ''CONFIRMED'', rtb_txHash := Some ''0xhash''\<rparr>)
   \<and> fst (rawTxBroadcastWorker_process eth_unconfirmed ex_raw_job ex_raw_world) = Inl (Error ''timeout'')
   \<and> findUnique_rawTransactionBroadcast ''b1'' (snd (rawTxBroadcastWorker_process eth_unconfirmed ex_raw_job ex_raw_world))
       = Some (ex_raw_row\<lparr>rtb_status := ''BROADCASTED'', rtb_txHash := Some ''0xhash''\<rparr>)"
proof -
  have f: "findUnique_rawTransactionBroadcast (job_dbId ex_raw_job) ex_raw_world = Some ex_raw_row"
    by (simp add: findUnique_rawTransactionBroadcast_def ex_raw_job_def ex_raw_world_def
        empty_world_def ex_raw_row_def)
  have p: "rtb_status ex_raw_row = ''PENDING''"
    by (simp add: ex_raw_row_def)
  have b: "broadcastTransaction eth_ok (rtb_rawTx ex_raw_row) = Inr ex_tx"
    "broadcastTransaction eth_unconfirmed (rtb_rawTx ex_raw_row) = Inr ex_tx_unconfirmed"
    by (simp_all add: eth_ok_def eth_unconfirmed_def)
  have u: "\<not> list_ex (\<lambda>x. rtb_id x \<noteq> job_dbId ex_raw_job \<and> rtb_txHash x = Some (tx_hash ex_tx))
             (rawTransactionBroadcasts ex_raw_world)"
    "\<not> list_ex (\<lambda>x. rtb_id x \<noteq> job_dbId ex_raw_job \<and> rtb_txHash x = Some (tx_hash ex_tx_unconfirmed))
             (rawTransactionBroadcasts ex_raw_world)"
    by (simp_all add: ex_raw_world_def empty_world_def ex_raw_row_def ex_raw_job_def)
  have wt: "tx_wait ex_tx 1 = Inr ()" "tx_wait ex_tx_unconfirmed 1 = Inl (Error ''timeout'')"
    by (simp_all add: ex_tx_def ex_tx_unconfirmed_def)
  have h: "tx_hash ex_tx = ''0xhash''" "tx_hash ex_tx_unconfirmed = ''0xhash''" "job_dbId ex_raw_job = ''b1''"
    by (simp_all add: ex_tx_def ex_tx_unconfirmed_def ex_raw_job_def)
  from raw_delivery_steps [of ex_raw_job ex_raw_world eth_ok] f p b u wt
  have ok: "fst (rawTxBroadcastWorker_process eth_ok ex_raw_job ex_raw_world) = Inr ()
    \<and> findUnique_rawTransactionBroadcast (job_dbId ex_raw_job)
        (snd (rawTxBroadcastWorker_process eth_ok ex_raw_job ex_raw_world))
       = Some (ex_raw_row\<lparr>rtb_status := ''CONFIRMED'', rtb_txHash := Some (tx_hash ex_tx)\<rparr>)"
    by blast
  from raw_delivery_steps [of ex_raw_job ex_raw_world eth_unconfirmed] f p b u wt
  have un: "fst (rawTxBroadcastWorker_process eth_unconfirmed ex_raw_job ex_raw_world) = Inl (Error ''timeout'')
    \<and> findUnique_rawTransactionBroadcast (job_dbId ex_raw_job)
        (snd (rawTxBroadcastWorker_process eth_unconfirmed ex_raw_job ex_raw_world))
       = Some (ex_raw_row\<lparr>rtb_status := ''BROADCASTED'', rtb_txHash := Some (tx_hash ex_tx_unconfirmed)\<rparr>)"
    by blast
  from f p ok un show ?thesis by (simp add: h)
qed

section \<open>A delivery that succeeds\<close>

lemma list_ex_map_apply [simp]:
  "list_ex (\<lambda>r. wr_id r = k) (map (\<lambda>r. if wr_id r = k' then apply_data d r else r) rows)
     = list_ex (\<lambda>r. wr_id r = k) rows"
  by (induction rows) auto

lemma find_map_apply [simp]:
  "find (\<lambda>r. wr_id r = k) (map (\<lambda>r. if wr_id r = k then apply_data d r else r) rows)
     = map_option (apply_data d) (find (\<lambda>r. wr_id r = k) rows)"
  by (rule find_map_update) simp

lemma find_map_apply_other [simp]:
  "k' \<noteq> k \<Longrightarrow> find (\<lambda>r. wr_id r = k') (map (\<lambda>r. if wr_id r = k then apply_data d r else r) rows)
     = find (\<lambda>r. wr_id r = k') rows"
  by (induction rows) auto

lemma update_wr_ok:
  assumes "findUnique_withdrawalRequest k w = Some r"
  shows "\<exists>w'. update_withdrawalRequest k d w = Inr w'
     \<and> findUnique_withdrawalRequest k w' = Some (apply_data d r)
     \<and> effects w' = effects w @ [Update_withdrawalRequest k d]"
  using assms
  by (auto simp: update_withdrawalRequest_def findUnique_withdrawalRequest_def dest: find_Some_list_ex)

text \<open>
  C7. The first delivery for a request in PENDING_SIGNATURE, with the request loaded, the
  service wallet built and every call answered:
  after the PROCESSING write the processor reads the token's decimals from the chain,
  scales the amount with them, fetches the fee data, submits the transfer signed by the
  service wallet with that amount and those fees, writes BROADCASTED with the returned
  hash, waits for one confirmation and writes COMPLETED. The history gains PROCESSING,
  BROADCASTED and COMPLETED, one entry each, in this order.
\<close>

theorem successful_delivery:
  assumes ld: "load_withdrawalRequest rt (job_dbId jb) w = Inr (Some r)"
    and signer: "Wallet rt = Inr serviceWallet"
    and st: "wr_status r = ''PENDING_SIGNATURE''"
    and first: "attemptsMade jb = 0"
    and dec: "decimals eth (wr_tokenContractAddress r) = Inr dec"
    and amt: "parseUnits eth (wr_amount r) dec = Inr tokenAmount"
    and fee: "getFeeData eth = Inr fd" "maxFeePerGas fd = Some mf" "maxPriorityFeePerGas fd = Some mp"
    and tr: "transfer eth serviceWallet (wr_tokenContractAddress r) (wr_destinationAddress r) tokenAmount
               \<lparr>o_maxFeePerGas = Some mf, o_maxPriorityFeePerGas = Some mp\<rparr> = Inr txr"
    and wt: "tx_wait txr 1 = Inr ()"
  shows "fst (multiSigWorker_process rt eth jb w) = Inr ()
    \<and> effects (snd (multiSigWorker_process rt eth jb w))
        = effects w @
          [Update_withdrawalRequest (job_dbId jb) data_PROCESSING,
           Call_decimals (wr_tokenContractAddress r),
           Call_getFeeData,
           Call_transfer serviceWallet (wr_tokenContractAddress r) (wr_destinationAddress r) tokenAmount
             \<lparr>o_maxFeePerGas = Some mf, o_maxPriorityFeePerGas = Some mp\<rparr>,
           Update_withdrawalRequest (job_dbId jb) (data_BROADCASTED (tx_hash txr)),
           Call_wait (tx_hash txr) 1,
           Update_withdrawalRequest (job_dbId jb) data_COMPLETED]
    \<and> findUnique_withdrawalRequest (job_dbId jb) (snd (multiSigWorker_process rt eth jb w))
        = Some (r\<lparr>wr_status := ''COMPLETED'', wr_txHash := Some (tx_hash txr), wr_errorMessage := None,
                 wr_history := wr_history r @ [''PROCESSING'', ''BROADCASTED'', ''COMPLETED'']\<rparr>)"
proof -
  from ld have f: "findUnique_withdrawalRequest (job_dbId jb) w = Some r"
    by (simp add: load_Some)
  let ?k = "job_dbId jb"
  let ?txo = "\<lparr>o_maxFeePerGas = Some mf, o_maxPriorityFeePerGas = Some mp\<rparr>"
  from update_wr_ok [OF f, of data_PROCESSING]
  obtain w1 where w1: "update_withdrawalRequest ?k data_PROCESSING w = Inr w1"
    "findUnique_withdrawalRequest ?k w1 = Some (apply_data data_PROCESSING r)"
    "effects w1 = effects w @ [Update_withdrawalRequest ?k data_PROCESSING]"
    by blast
  let ?cs = "[Call_decimals (wr_tokenContractAddress r), Call_getFeeData,
              Call_transfer serviceWallet (wr_tokenContractAddress r) (wr_destinationAddress r) tokenAmount ?txo]"
  have sub: "submit_transfer serviceWallet eth r = (Inr txr, ?cs)"
    using dec amt fee tr by (simp add: submit_transfer_def)
  let ?w4 = "calls ?cs w1"
  have f4: "findUnique_withdrawalRequest ?k ?w4 = Some (apply_data data_PROCESSING r)"
    using w1 by simp
  from update_wr_ok [OF f4, of "data_BROADCASTED (tx_hash txr)"]
  obtain w5 where w5: "update_withdrawalRequest ?k (data_BROADCASTED (tx_hash txr)) ?w4 = Inr w5"
    "findUnique_withdrawalRequest ?k w5
       = Some (apply_data (data_BROADCASTED (tx_hash txr)) (apply_data data_PROCESSING r))"
    "effects w5 = effects ?w4 @ [Update_withdrawalRequest ?k (data_BROADCASTED (tx_hash txr))]"
    by blast
  let ?w6 = "call (Call_wait (tx_hash txr) 1) w5"
  have f6: "findUnique_withdrawalRequest ?k ?w6
       = Some (apply_data (data_BROADCASTED (tx_hash txr)) (apply_data data_PROCESSING r))"
    using w5 by simp
  from update_wr_ok [OF f6, of data_COMPLETED]
  obtain w7 where w7: "update_withdrawalRequest ?k data_COMPLETED ?w6 = Inr w7"
    "findUnique_withdrawalRequest ?k w7
       = Some (apply_data data_COMPLETED (apply_data (data_BROADCASTED (tx_hash txr)) (apply_data data_PROCESSING r)))"
    "effects w7 = effects ?w6 @ [Update_withdrawalRequest ?k data_COMPLETED]"
    by blast
  have run: "multiSigWorker_process rt eth jb w = (Inr (), w7)"
    using ld signer st first sub wt w1(1) w5(1) w7(1)
    by (simp add: multiSigWorker_process_def multiSigWorker_try_def)
  show ?thesis
    using w1 w5 w7
    by (simp add: run apply_data_def data_PROCESSING_def data_BROADCASTED_def data_COMPLETED_def)
qed

lemma intake_example:
  "processNewRequest ''c1'' ''1'' ex_data empty_world
     = (Inr ''bank-tx-id-12345-abcdef'', (ex_world ''PENDING_SIGNATURE'')\<lparr>withdrawalQueue := [ex_job]\<rparr>)"
  by (simp add: processNewRequest_def findUnique_by_requestId_def empty_world_def
      create_withdrawalRequest_def ex_world_def ex_job_def new_withdrawalRequest_def ex_data_def)

theorem successful_delivery_witness:
  "fst (multiSigWorker_process rt_ok eth_ok ex_job (snd (processNewRequest ''c1'' ''1'' ex_data empty_world)))
     = Inr ()
   \<and> map_option wr_history (findUnique_withdrawalRequest ''c1''
        (snd (multiSigWorker_process rt_ok eth_ok ex_job
           (snd (processNewRequest ''c1'' ''1'' ex_data empty_world)))))
     = Some [''PENDING_SIGNATURE'', ''PROCESSING'', ''BROADCASTED'', ''COMPLETED'']
   \<and> effects (snd (multiSigWorker_process rt_ok eth_ok ex_job
           (snd (processNewRequest ''c1'' ''1'' ex_data empty_world))))
     = [Update_withdrawalRequest ''c1'' data_PROCESSING, Call_decimals ''0xU'', Call_getFeeData,
        Call_transfer ''key'' ''0xU'' ''0xD'' 1500000000 \<lparr>o_maxFeePerGas = Some 30, o_maxPriorityFeePerGas = Some 2\<rparr>,
        Update_withdrawalRequest ''c1'' (data_BROADCASTED ''0xhash''), Call_wait ''0xhash'' 1,
        Update_withdrawalRequest ''c1'' data_COMPLETED]"
proof -
  let ?w = "(ex_world ''PENDING_SIGNATURE'')\<lparr>withdrawalQueue := [ex_job]\<rparr>"
  let ?r = "new_withdrawalRequest ''c1'' ex_data"
  have f: "load_withdrawalRequest rt_ok (job_dbId ex_job) ?w = Inr (Some ?r)"
    by (simp add: findUnique_withdrawalRequest_def ex_world_def empty_world_def ex_job_def
        new_withdrawalRequest_def)
  have k: "Wallet rt_ok = Inr ''key''"
    by (simp add: rt_ok_def)
  have r: "wr_status ?r = ''PENDING_SIGNATURE''" "wr_tokenContractAddress ?r = ''0xU''"
    "wr_destinationAddress ?r = ''0xD''" "wr_amount ?r = ''1500.00''" "wr_history ?r = [''PENDING_SIGNATURE'']"
    by (simp_all add: new_withdrawalRequest_def ex_data_def)
  have e: "decimals eth_ok ''0xU'' = Inr 6" "parseUnits eth_ok ''1500.00'' 6 = Inr 1500000000"
    "getFeeData eth_ok = Inr ex_fees" "maxFeePerGas ex_fees = Some 30" "maxPriorityFeePerGas ex_fees = Some 2"
    "transfer eth_ok ''key'' ''0xU'' ''0xD'' 1500000000
       \<lparr>o_maxFeePerGas = Some 30, o_maxPriorityFeePerGas = Some 2\<rparr> = Inr ex_tx"
    "tx_wait ex_tx 1 = Inr ()" "tx_hash ex_tx = ''0xhash''"
    by (simp_all add: eth_ok_def ex_fees_def ex_tx_def)
  have j: "attemptsMade ex_job = 0" "job_dbId ex_job = ''c1''"
    by (simp_all add: ex_job_def)
  have w: "snd (processNewRequest ''c1'' ''1'' ex_data empty_world) = ?w"
    by (simp add: intake_example)
  from successful_delivery [of rt_ok ex_job ?w ?r "''key''" eth_ok 6 1500000000 ex_fees 30 2 ex_tx]
    f k r e j
  have "fst (multiSigWorker_process rt_ok eth_ok ex_job ?w) = Inr ()
    \<and> effects (snd (multiSigWorker_process rt_ok eth_ok ex_job ?w))
        = effects ?w @
          [Update_withdrawalRequest ''c1'' data_PROCESSING, Call_decimals ''0xU'', Call_getFeeData,
           Call_transfer ''key'' ''0xU'' ''0xD'' 1500000000 \<lparr>o_maxFeePerGas = Some 30, o_maxPriorityFeePerGas = Some 2\<rparr>,
           Update_withdrawalRequest ''c1'' (data_BROADCASTED ''0xhash''), Call_wait ''0xhash'' 1,
           Update_withdrawalRequest ''c1'' data_COMPLETED]
    \<and> findUnique_withdrawalRequest ''c1'' (snd (multiSigWorker_process rt_ok eth_ok ex_job ?w))
        = Some (?r\<lparr>wr_status := ''COMPLETED'', wr_txHash := Some ''0xhash'', wr_errorMessage := None,
                 wr_history := [''PENDING_SIGNATURE''] @ [''PROCESSING'', ''BROADCASTED'', ''COMPLETED'']\<rparr>)"
    by simp
  moreover have "effects ?w = []"
    by (simp add: ex_world_def empty_world_def)
  ultimately show ?thesis
    unfolding w by simp
qed

section \<open>The partially signed payload\<close>

text \<open>
  Two worlds that differ only in the \<^verbatim>\<open>partiallySignedTx\<close> of their requests:
  \<open>with_partiallySignedTx g w\<close> replaces the payload of every request by \<open>g\<close> of its id.
\<close>

definition with_partiallySignedTx :: "(string \<Rightarrow> string) \<Rightarrow> world \<Rightarrow> world" where
  "with_partiallySignedTx g w =
     w\<lparr>withdrawalRequests := map (\<lambda>r. r\<lparr>wr_partiallySignedTx := g (wr_id r)\<rparr>) (withdrawalRequests w)\<rparr>"

lemma find_map_pres:
  "(\<And>x. p (f x) = p x) \<Longrightarrow> find p (map f xs) = map_option f (find p xs)"
  by (induction xs) auto

lemma findUnique_with:
  "findUnique_withdrawalRequest k (with_partiallySignedTx g w)
     = map_option (\<lambda>r. r\<lparr>wr_partiallySignedTx := g (wr_id r)\<rparr>) (findUnique_withdrawalRequest k w)"
  by (simp add: findUnique_withdrawalRequest_def with_partiallySignedTx_def find_map_pres)

lemma call_with: "call e (with_partiallySignedTx g w) = with_partiallySignedTx g (call e w)"
  by (simp add: call_def with_partiallySignedTx_def)

lemma calls_with: "calls es (with_partiallySignedTx g w) = with_partiallySignedTx g (calls es w)"
  by (simp add: calls_def with_partiallySignedTx_def)

lemma apply_data_partiallySignedTx:
  "apply_data d (r\<lparr>wr_partiallySignedTx := x\<rparr>) = (apply_data d r)\<lparr>wr_partiallySignedTx := x\<rparr>"
  by (simp add: apply_data_def cong: option.case_cong)

lemma update_with:
  "update_withdrawalRequest k d (with_partiallySignedTx g w)
     = (case update_withdrawalRequest k d w of Inl e \<Rightarrow> Inl e | Inr w' \<Rightarrow> Inr (with_partiallySignedTx g w'))"
proof -
  have ex: "list_ex (\<lambda>r. wr_id r = k) (map (\<lambda>r. r\<lparr>wr_partiallySignedTx := g (wr_id r)\<rparr>) xs)
              = list_ex (\<lambda>r. wr_id r = k) xs" for xs :: "withdrawalRequest list"
    by (induction xs) simp_all
  have mp: "map (\<lambda>r. if wr_id r = k then apply_data d r else r) (map (\<lambda>r. r\<lparr>wr_partiallySignedTx := g (wr_id r)\<rparr>) xs)
              = map (\<lambda>r. r\<lparr>wr_partiallySignedTx := g (wr_id r)\<rparr>) (map (\<lambda>r. if wr_id r = k then apply_data d r else r) xs)" for xs :: "withdrawalRequest list"
    by (induction xs) (simp_all add: apply_data_partiallySignedTx)
  show ?thesis
    by (simp add: update_withdrawalRequest_def with_partiallySignedTx_def ex mp del: map_map)
qed

lemma submit_transfer_ignores_partiallySignedTx:
  "submit_transfer sw eth (r\<lparr>wr_partiallySignedTx := x\<rparr>) = submit_transfer sw eth r"
  by (simp add: submit_transfer_def cong: sum.case_cong if_cong)

lemma try_with:
  "multiSigWorker_try sw eth jb (r\<lparr>wr_partiallySignedTx := x\<rparr>) (with_partiallySignedTx g w)
     = (fst (multiSigWorker_try sw eth jb r w), with_partiallySignedTx g (snd (multiSigWorker_try sw eth jb r w)))"
proof (cases "if attemptsMade jb = 0 then update_withdrawalRequest (job_dbId jb) data_PROCESSING w else Inr w")
  case (Inl e)
  then show ?thesis
    by (auto simp: multiSigWorker_try_def update_with submit_transfer_ignores_partiallySignedTx split: if_splits)
next
  case w1: (Inr w1)
  then have w1': "(if attemptsMade jb = 0
          then update_withdrawalRequest (job_dbId jb) data_PROCESSING (with_partiallySignedTx g w)
          else Inr (with_partiallySignedTx g w)) = Inr (with_partiallySignedTx g w1)"
    by (auto simp: update_with split: if_splits)
  show ?thesis
  proof (cases "fst (submit_transfer sw eth r)")
    case (Inl e)
    then show ?thesis
      using w1 w1' by (simp add: multiSigWorker_try_def submit_transfer_ignores_partiallySignedTx calls_with)
  next
    case txr: (Inr txr)
    let ?w4 = "calls (snd (submit_transfer sw eth r)) w1"
    show ?thesis
    proof (cases "update_withdrawalRequest (job_dbId jb) (data_BROADCASTED (tx_hash txr)) ?w4")
      case (Inl e)
      then show ?thesis
        using w1 w1' txr
        by (simp add: multiSigWorker_try_def submit_transfer_ignores_partiallySignedTx calls_with update_with)
    next
      case w5: (Inr w5)
      show ?thesis
      proof (cases "tx_wait txr 1")
        case (Inl e)
        then show ?thesis
          using w1 w1' txr w5
          by (simp add: multiSigWorker_try_def submit_transfer_ignores_partiallySignedTx calls_with
              call_with update_with)
      next
        case (Inr u)
        then show ?thesis
          using w1 w1' txr w5
          by (cases "update_withdrawalRequest (job_dbId jb) data_COMPLETED (call (Call_wait (tx_hash txr) 1) w5)")
            (simp_all add: multiSigWorker_try_def submit_transfer_ignores_partiallySignedTx calls_with
              call_with update_with)
      qed
    qed
  qed
qed

lemma process_with:
  "multiSigWorker_process rt eth jb (with_partiallySignedTx g w)
     = (fst (multiSigWorker_process rt eth jb w), with_partiallySignedTx g (snd (multiSigWorker_process rt eth jb w)))"
proof (cases "findUnique_error rt")
  case (Some e)
  then show ?thesis
    by (simp add: multiSigWorker_process_def load_withdrawalRequest_def)
next
  case None
  show ?thesis
  proof (cases "findUnique_withdrawalRequest (job_dbId jb) w")
    case N: None
    with None show ?thesis
      by (simp add: multiSigWorker_process_def load_withdrawalRequest_def findUnique_with)
  next
    case (Some r)
    with None show ?thesis
      by (cases "Wallet rt")
        (simp_all add: multiSigWorker_process_def load_withdrawalRequest_def findUnique_with try_with)
  qed
qed

lemma update_effects:
  "update_withdrawalRequest k d w = Inr w' \<Longrightarrow> effects w' = effects w @ [Update_withdrawalRequest k d]"
  by (auto simp: update_withdrawalRequest_def split: if_splits)

lemma submit_transfer_calls:
  assumes "Call_transfer s t d a ov \<in> set (snd (submit_transfer sw eth r))"
  shows "s = sw \<and> t = wr_tokenContractAddress r \<and> d = wr_destinationAddress r
     \<and> (\<exists>dec. decimals eth t = Inr dec \<and> parseUnits eth (wr_amount r) dec = Inr a)"
  using assms
  by (auto simp: submit_transfer_def Let_def split: sum.splits if_splits)

lemma try_transfers:
  assumes "Call_transfer s t d a ov \<in> set (effects (snd (multiSigWorker_try sw eth jb r w)))"
  shows "Call_transfer s t d a ov \<in> set (effects w)
     \<or> Call_transfer s t d a ov \<in> set (snd (submit_transfer sw eth r))"
  using assms
  by (auto simp: multiSigWorker_try_def Let_def dest!: update_effects split: sum.splits if_splits)

lemma process_transfers:
  assumes "Call_transfer s t d a ov \<in> set (effects (snd (multiSigWorker_process rt eth jb w)))"
  shows "Call_transfer s t d a ov \<in> set (effects w)
     \<or> (Wallet rt = Inr s \<and> (\<exists>r. findUnique_withdrawalRequest (job_dbId jb) w = Some r
            \<and> t = wr_tokenContractAddress r \<and> d = wr_destinationAddress r
            \<and> (\<exists>dec. decimals eth t = Inr dec \<and> parseUnits eth (wr_amount r) dec = Inr a)))"
proof (cases "load_withdrawalRequest rt (job_dbId jb) w")
  case (Inl e)
  with assms show ?thesis by (simp add: multiSigWorker_process_def)
next
  case (Inr x)
  then have x: "findUnique_withdrawalRequest (job_dbId jb) w = x"
    by (simp add: load_Some)
  show ?thesis
  proof (cases x)
    case None
    with assms Inr show ?thesis by (simp add: multiSigWorker_process_def)
  next
    case (Some r)
    show ?thesis
    proof (cases "wr_status r \<in> set [''COMPLETED'', ''CANCELLED'']")
      case True
      with assms Inr Some show ?thesis by (simp add: multiSigWorker_process_def)
    next
      case False
      show ?thesis
      proof (cases "Wallet rt")
        case (Inl e)
        with assms Inr Some False show ?thesis by (simp add: multiSigWorker_process_def)
      next
        case sw: (Inr sw)
        with assms Inr Some False
        have "Call_transfer s t d a ov \<in> set (effects (snd (multiSigWorker_try sw eth jb r w)))"
          by (simp add: multiSigWorker_process_def)
        from try_transfers [OF this] submit_transfer_calls [of s t d a ov sw eth r] Some x sw
        show ?thesis by blast
      qed
    qed
  qed
qed

lemma find_append_new:
  "\<not> list_ex (\<lambda>x. wr_id x = i) rows \<Longrightarrow> wr_id r = i \<Longrightarrow> find (\<lambda>x. wr_id x = i) (rows @ [r]) = Some r"
  by (induction rows) auto

lemma list_ex_disjE: "\<not> list_ex (\<lambda>x. p x \<or> q x) xs \<Longrightarrow> \<not> list_ex p xs"
  by (auto simp: list_ex_iff)

lemma processNewRequest_persists:
  assumes "processNewRequest i j rd w = (Inr x, w')"
  shows "findUnique_withdrawalRequest i w' = Some (new_withdrawalRequest i rd)"
proof -
  from assms have c: "\<not> list_ex (\<lambda>x. wr_id x = i \<or> wr_requestId x = request_id rd) (withdrawalRequests w)"
    and w': "w' = w\<lparr>withdrawalRequests := withdrawalRequests w @ [new_withdrawalRequest i rd],
                     withdrawalQueue := withdrawalQueue w @ [\<lparr>job_id = j, job_dbId = i, attemptsMade = 0\<rparr>]\<rparr>"
    by (auto simp: processNewRequest_def create_withdrawalRequest_def new_withdrawalRequest_def
        split: option.splits if_splits)
  from list_ex_disjE [OF c] show ?thesis
    by (simp add: w' findUnique_withdrawalRequest_def find_append_new new_withdrawalRequest_def)
qed

text \<open>
  C10. A delivery does not read \<^verbatim>\<open>partiallySignedTx\<close>: on two worlds that differ only in
  that field it returns the same result, makes the same calls and writes in the same order,
  and leaves worlds that again differ only in that field. Every transfer a delivery submits
  is signed by the service wallet and goes to the request's token contract and destination
  with the amount scaled by the decimals read from the chain. The intake stores the payload
  with the new request.
\<close>

theorem partiallySignedTx_never_read:
  "multiSigWorker_process rt eth jb (with_partiallySignedTx g w)
     = (fst (multiSigWorker_process rt eth jb w),
        with_partiallySignedTx g (snd (multiSigWorker_process rt eth jb w)))
   \<and> effects (snd (multiSigWorker_process rt eth jb (with_partiallySignedTx g w)))
       = effects (snd (multiSigWorker_process rt eth jb w))
   \<and> (\<forall>s t d a ov. Call_transfer s t d a ov \<in> set (effects (snd (multiSigWorker_process rt eth jb w))) \<longrightarrow>
          Call_transfer s t d a ov \<in> set (effects w)
        \<or> (Wallet rt = Inr s \<and> (\<exists>r. findUnique_withdrawalRequest (job_dbId jb) w = Some r
              \<and> t = wr_tokenContractAddress r \<and> d = wr_destinationAddress r
              \<and> (\<exists>dec. decimals eth t = Inr dec \<and> parseUnits eth (wr_amount r) dec = Inr a))))
   \<and> (\<forall>i j rd x w'. processNewRequest i j rd w = (Inr x, w') \<longrightarrow>
          (\<exists>r. findUnique_withdrawalRequest i w' = Some r
              \<and> wr_partiallySignedTx r = partially_signed_tx rd))"
proof (intro conjI allI impI)
  show "multiSigWorker_process rt eth jb (with_partiallySignedTx g w)
     = (fst (multiSigWorker_process rt eth jb w),
        with_partiallySignedTx g (snd (multiSigWorker_process rt eth jb w)))"
    by (rule process_with)
  then show "effects (snd (multiSigWorker_process rt eth jb (with_partiallySignedTx g w)))
       = effects (snd (multiSigWorker_process rt eth jb w))"
    by (simp add: with_partiallySignedTx_def)
next
  fix s t d a ov
  assume "Call_transfer s t d a ov \<in> set (effects (snd (multiSigWorker_process rt eth jb w)))"
  then show "Call_transfer s t d a ov \<in> set (effects w)
        \<or> (Wallet rt = Inr s \<and> (\<exists>r. findUnique_withdrawalRequest (job_dbId jb) w = Some r
              \<and> t = wr_tokenContractAddress r \<and> d = wr_destinationAddress r
              \<and> (\<exists>dec. decimals eth t = Inr dec \<and> parseUnits eth (wr_amount r) dec = Inr a)))"
    by (rule process_transfers)
next
  fix i j rd x w'
  assume "processNewRequest i j rd w = (Inr x, w')"
  from processNewRequest_persists [OF this]
  show "\<exists>r. findUnique_withdrawalRequest i w' = Some r \<and> wr_partiallySignedTx r = partially_signed_tx rd"
    by (simp add: new_withdrawalRequest_def)
qed

lemma partially_signed_tx_ex_data: "partially_signed_tx ex_data = ''0x5157''"
  by (simp add: ex_data_def)

theorem partiallySignedTx_never_read_witness:
  "effects (snd (multiSigWorker_process rt_ok eth_ok ex_job
       (with_partiallySignedTx (\<lambda>i. ''0xdead'') (ex_world ''PENDING_SIGNATURE''))))
     = effects (snd (multiSigWorker_process rt_ok eth_ok ex_job (ex_world ''PENDING_SIGNATURE'')))
   \<and> Call_transfer ''key'' ''0xU'' ''0xD'' 1500000000 \<lparr>o_maxFeePerGas = Some 30, o_maxPriorityFeePerGas = Some 2\<rparr>
       \<in> set (effects (snd (multiSigWorker_process rt_ok eth_ok ex_job (ex_world ''PENDING_SIGNATURE''))))
   \<and> (\<exists>r. findUnique_withdrawalRequest ''c1'' (snd (processNewRequest ''c1'' ''1'' ex_data empty_world)) = Some r
          \<and> wr_partiallySignedTx r = ''0x5157'')"
proof -
  note t = partiallySignedTx_never_read [of rt_ok eth_ok ex_job "\<lambda>i. ''0xdead''" "ex_world ''PENDING_SIGNATURE''"]
  have tr: "Call_transfer ''key'' ''0xU'' ''0xD'' 1500000000 \<lparr>o_maxFeePerGas = Some 30, o_maxPriorityFeePerGas = Some 2\<rparr>
       \<in> set (effects (snd (multiSigWorker_process rt_ok eth_ok ex_job (ex_world ''PENDING_SIGNATURE''))))"
    by (simp add: multiSigWorker_process_def multiSigWorker_try_def findUnique_withdrawalRequest_def
        load_withdrawalRequest_def rt_ok_def update_withdrawalRequest_def ex_world_def empty_world_def ex_job_def call_def calls_def
        ex_tx_def new_withdrawalRequest_def submit_transfer_def eth_ok_def ex_fees_def ex_data_def
        data_PROCESSING_def data_BROADCASTED_def)
  note s = partiallySignedTx_never_read [of rt_ok eth_ok ex_job "\<lambda>i. ''0xdead''" empty_world]
  have i: "processNewRequest ''c1'' ''1'' ex_data empty_world
     = (Inr ''bank-tx-id-12345-abcdef'', (ex_world ''PENDING_SIGNATURE'')\<lparr>withdrawalQueue := [ex_job]\<rparr>)"
    by (simp add: processNewRequest_def findUnique_by_requestId_def empty_world_def
      create_withdrawalRequest_def ex_world_def ex_job_def new_withdrawalRequest_def ex_data_def)
  from s i have "\<exists>r. findUnique_withdrawalRequest ''c1'' ((ex_world ''PENDING_SIGNATURE'')\<lparr>withdrawalQueue := [ex_job]\<rparr>) = Some r
          \<and> wr_partiallySignedTx r = partially_signed_tx ex_data"
    by blast
  then have p: "\<exists>r. findUnique_withdrawalRequest ''c1'' (snd (processNewRequest ''c1'' ''1'' ex_data empty_world)) = Some r
          \<and> wr_partiallySignedTx r = ''0x5157''"
    by (simp add: i partially_signed_tx_ex_data)
  from t tr p show ?thesis by blast
qed

section \<open>What a delivery writes\<close>

text \<open>
  A delivery changes the world in two places only: the rows with the job's id, by a
  sequence of writes, and the effect log. \<open>touch k ds es\<close> is that change.
\<close>

definition writes :: "withdrawalRequest_data list \<Rightarrow> withdrawalRequest \<Rightarrow> withdrawalRequest" where
  "writes ds r = foldl (\<lambda>x d. apply_data d x) r ds"

definition written :: "string \<Rightarrow> withdrawalRequest_data list \<Rightarrow> withdrawalRequest list \<Rightarrow> withdrawalRequest list" where
  "written k ds rows = map (\<lambda>x. if wr_id x = k then writes ds x else x) rows"

definition touch :: "string \<Rightarrow> withdrawalRequest_data list \<Rightarrow> effect list \<Rightarrow> world \<Rightarrow> world" where
  "touch k ds es w =
     w\<lparr>withdrawalRequests := written k ds (withdrawalRequests w), effects := effects w @ es\<rparr>"

fun store_writes :: "effect list \<Rightarrow> (string \<times> withdrawalRequest_data) list" where
  "store_writes [] = []"
| "store_writes (Update_withdrawalRequest k d # es) = (k, d) # store_writes es"
| "store_writes (e # es) = store_writes es"

fun alerts :: "effect list \<Rightarrow> (string \<times> alert_details) list" where
  "alerts [] = []"
| "alerts (SendAlert t a # es) = (t, a) # alerts es"
| "alerts (e # es) = alerts es"


lemma store_writes_append [simp]: "store_writes (a @ b) = store_writes a @ store_writes b"
  by (induction a rule: store_writes.induct) simp_all

lemma alerts_append [simp]: "alerts (a @ b) = alerts a @ alerts b"
  by (induction a rule: alerts.induct) simp_all

lemma wr_id_writes [simp]: "wr_id (writes ds r) = wr_id r"
  unfolding writes_def by (induction ds arbitrary: r) simp_all

lemma writes_Nil [simp]: "writes [] r = r"
  by (simp add: writes_def)

lemma writes_append: "writes (a @ b) r = writes b (writes a r)"
  by (simp add: writes_def)


lemma written_Nil [simp]: "written k [] rows = rows"
  unfolding written_def by (induction rows) simp_all

lemma written_written [simp]: "written k ds2 (written k ds1 rows) = written k (ds1 @ ds2) rows"
  unfolding written_def by (induction rows) (simp_all add: writes_append)

lemma list_ex_written [simp]:
  "list_ex (\<lambda>x. wr_id x = k') (written k ds rows) = list_ex (\<lambda>x. wr_id x = k') rows"
  unfolding written_def by (induction rows) simp_all


lemma touch_Nil [simp]: "touch k [] [] w = w"
  by (simp add: touch_def)

lemma touch_touch [simp]: "touch k ds2 es2 (touch k ds1 es1 w) = touch k (ds1 @ ds2) (es1 @ es2) w"
  by (simp add: touch_def)



lemma list_ex_touch [simp]:
  "list_ex (\<lambda>x. wr_id x = k') (withdrawalRequests (touch k ds es w)) = list_ex (\<lambda>x. wr_id x = k') (withdrawalRequests w)"
  by (simp add: touch_def)


lemma submit_transfer_store_writes [simp]: "store_writes (snd (submit_transfer sw eth r)) = []"
  by (simp add: submit_transfer_def Let_def split: sum.splits)

lemma submit_transfer_alerts [simp]: "alerts (snd (submit_transfer sw eth r)) = []"
  by (simp add: submit_transfer_def Let_def split: sum.splits)





section \<open>Worker options and the broker\<close>

text \<open>
  The options the two workers are constructed with (worker.js lines 101-109 and 153-157).
\<close>

record workerOptions =
  attempts :: nat
  backoff_type :: string
  backoff_delay :: nat

definition multiSigWorker_options :: workerOptions where
  "multiSigWorker_options = \<lparr>attempts = 5, backoff_type = ''exponential'', backoff_delay = 10000\<rparr>"

definition rawTxBroadcastWorker_options :: workerOptions where
  "rawTxBroadcastWorker_options = \<lparr>attempts = 3, backoff_type = ''exponential'', backoff_delay = 5000\<rparr>"

text \<open>What the broker concludes from one delivery: done, retry after a delay (ms), or exhausted.\<close>

datatype verdict = Completed | Retry nat | Exhausted error

type_synonym processor = "job \<Rightarrow> world \<Rightarrow> (error + unit) \<times> world"
type_synonym listener = "job \<Rightarrow> error \<Rightarrow> world \<Rightarrow> (error + unit) \<times> world"

text \<open>
  Modelled from the spec: the broker's backoff. The queue library that delivers the jobs
  is not among the repository's sources; the spec requires of it that it tracks the
  attempt count of a job, redelivers a job whose delivery raised after an exponentially
  growing delay (the configured delay, doubled with every further attempt) up to the
  configured number of attempts, and fires the terminal notification once when the
  attempts are used up. The policy is read from the options the worker is constructed
  with. \<open>broker_backoff opts n\<close> is the delay after the \<open>n\<close>-th failed attempt.
\<close>

definition broker_backoff :: "workerOptions \<Rightarrow> nat \<Rightarrow> nat" where
  "broker_backoff opts n =
     (if backoff_type opts = ''exponential'' then backoff_delay opts * 2 ^ (n - 1) else backoff_delay opts)"

text \<open>
  Modelled from the spec: one delivery as the broker sees it. A delivery that returns
  completes the job; one that raises is retried after the backoff delay while attempts
  remain, and otherwise the \<^verbatim>\<open>failed\<close> listener is called, once, with the job as
  delivered and the error raised.
\<close>

definition broker_deliver :: "workerOptions \<Rightarrow> processor \<Rightarrow> listener \<Rightarrow> job \<Rightarrow> world \<Rightarrow> verdict \<times> world" where
  "broker_deliver opts process on_failed jb w =
     (case process jb w of
        (Inr u, w1) \<Rightarrow> (Completed, w1)
      | (Inl e, w1) \<Rightarrow>
          if attemptsMade jb + 1 < attempts opts
          then (Retry (broker_backoff opts (attemptsMade jb + 1)), w1)
          else (Exhausted e, snd (on_failed jb e w1)))"

lemma broker_deliver_Retry:
  "broker_deliver opts process on_failed jb w = (Retry d, w1) \<Longrightarrow> attemptsMade jb + 1 < attempts opts"
  by (auto simp: broker_deliver_def split: prod.splits sum.splits if_splits)

text \<open>
  Modelled from the spec: the deliveries of one job until the broker concludes, with the
  attempt counter incremented between deliveries. \<open>process k\<close> is the job handler as it
  runs at the attempt with counter \<open>k\<close>. The result lists the broker's verdicts in order.
\<close>

function broker_run ::
  "workerOptions \<Rightarrow> (nat \<Rightarrow> processor) \<Rightarrow> listener \<Rightarrow> job \<Rightarrow> world \<Rightarrow> verdict list \<times> world" where
  "broker_run opts process on_failed jb w =
     (case broker_deliver opts (process (attemptsMade jb)) on_failed jb w of
        (Retry d, w1) \<Rightarrow>
          (case broker_run opts process on_failed (jb\<lparr>attemptsMade := attemptsMade jb + 1\<rparr>) w1 of
             (vs, w2) \<Rightarrow> (Retry d # vs, w2))
      | (v, w1) \<Rightarrow> ([v], w1))"
  by pat_completeness auto
termination
  by (relation "measure (\<lambda>(opts, process, on_failed, jb, w). attempts opts - attemptsMade jb)")
    (auto dest!: broker_deliver_Retry [OF sym])

declare broker_run.simps [simp del]

fun delays :: "verdict list \<Rightarrow> nat list" where
  "delays [] = []"
| "delays (Retry d # vs) = d # delays vs"
| "delays (v # vs) = delays vs"

fun notifications :: "verdict list \<Rightarrow> error list" where
  "notifications [] = []"
| "notifications (Exhausted e # vs) = e # notifications vs"
| "notifications (v # vs) = notifications vs"

lemma broker_run_shape:
  "attemptsMade jb < attempts opts \<Longrightarrow>
   \<exists>n v. fst (broker_run opts process on_failed jb w)
       = map (\<lambda>i. Retry (broker_backoff opts (attemptsMade jb + 1 + i))) [0..<n] @ [v]
     \<and> attemptsMade jb + n < attempts opts
     \<and> (v = Completed \<or> (\<exists>e. v = Exhausted e) \<and> attemptsMade jb + n + 1 = attempts opts)"
proof (induction opts process on_failed jb w rule: broker_run.induct)
  case (1 opts process on_failed jb w)
  obtain v w1 where d: "broker_deliver opts (process (attemptsMade jb)) on_failed jb w = (v, w1)"
    by (cases "broker_deliver opts (process (attemptsMade jb)) on_failed jb w")
  show ?case
  proof (cases v)
    case Completed
    with d show ?thesis
      using "1.prems" by (intro exI [of _ 0]) (simp add: broker_run.simps [of opts process on_failed jb w])
  next
    case (Exhausted e)
    with d have "\<not> attemptsMade jb + 1 < attempts opts"
      by (auto simp: broker_deliver_def split: prod.splits sum.splits if_splits)
    with d Exhausted show ?thesis
      using "1.prems" by (intro exI [of _ 0]) (simp add: broker_run.simps [of opts process on_failed jb w])
  next
    case (Retry x)
    with d have lt: "attemptsMade jb + 1 < attempts opts"
      and x: "x = broker_backoff opts (attemptsMade jb + 1)"
      by (auto simp: broker_deliver_def split: prod.splits sum.splits if_splits)
    let ?jb = "jb\<lparr>attemptsMade := attemptsMade jb + 1\<rparr>"
    from "1.IH" [OF d [symmetric] Retry] lt
    obtain n v' where ih: "fst (broker_run opts process on_failed ?jb w1)
        = map (\<lambda>i. Retry (broker_backoff opts (attemptsMade ?jb + 1 + i))) [0..<n] @ [v']"
      "attemptsMade ?jb + n < attempts opts"
      "v' = Completed \<or> (\<exists>e. v' = Exhausted e) \<and> attemptsMade ?jb + n + 1 = attempts opts"
      by auto
    have m: "map (\<lambda>i. Retry (broker_backoff opts (attemptsMade jb + 1 + i))) [0..<Suc n]
        = Retry x # map (\<lambda>i. Retry (broker_backoff opts (attemptsMade ?jb + 1 + i))) [0..<n]"
      by (simp add: x upt_rec [of 0 "Suc n"] map_Suc_upt [symmetric] del: upt_Suc)
    show ?thesis
      using ih d Retry m
      by (intro exI [of _ "Suc n"] exI [of _ v'])
        (auto simp: broker_run.simps [of opts process on_failed jb w] split: prod.splits simp del: upt_Suc)
  qed
qed

text \<open>
  The deliveries of a withdrawal job and of a raw-broadcast job under that broker, with
  the options of worker.js; \<open>rts k\<close> and \<open>eths k\<close> are the runtime and the chain client as
  they are during the attempt with counter \<open>k\<close>.
\<close>

definition withdrawal_run ::
  "(nat \<Rightarrow> runtime) \<Rightarrow> (nat \<Rightarrow> ethers) \<Rightarrow> job \<Rightarrow> world \<Rightarrow> verdict list \<times> world" where
  "withdrawal_run rts eths jb w =
     broker_run multiSigWorker_options (\<lambda>k. multiSigWorker_process (rts k) (eths k))
       multiSigWorker_on_failed jb w"

definition raw_broadcast_run :: "(nat \<Rightarrow> ethers) \<Rightarrow> job \<Rightarrow> world \<Rightarrow> verdict list \<times> world" where
  "raw_broadcast_run eths jb w =
     broker_run rawTxBroadcastWorker_options (\<lambda>k. rawTxBroadcastWorker_process (eths k))
       rawTxBroadcastWorker_on_failed jb w"

lemma delays_append [simp]: "delays (a @ b) = delays a @ delays b"
  by (induction a rule: delays.induct) simp_all

lemma notifications_append [simp]: "notifications (a @ b) = notifications a @ notifications b"
  by (induction a rule: notifications.induct) simp_all

lemma delays_retries [simp]: "delays (map (\<lambda>i. Retry (f i)) xs) = map f xs"
  by (induction xs) simp_all

lemma notifications_retries [simp]: "notifications (map (\<lambda>i. Retry (f i)) xs) = []"
  by (induction xs) simp_all

lemma Completed_retries [simp]: "Completed \<notin> set (map (\<lambda>i. Retry (f i)) xs)"
  by (induction xs) simp_all

lemma run_contract:
  assumes "attemptsMade jb = 0" "0 < attempts opts"
  shows "\<exists>n. n < attempts opts
     \<and> length (fst (broker_run opts process on_failed jb w)) = n + 1
     \<and> delays (fst (broker_run opts process on_failed jb w)) = map (\<lambda>i. broker_backoff opts (Suc i)) [0..<n]
     \<and> length (notifications (fst (broker_run opts process on_failed jb w))) \<le> 1
     \<and> (Completed \<notin> set (fst (broker_run opts process on_failed jb w)) \<longrightarrow>
           n + 1 = attempts opts \<and> length (notifications (fst (broker_run opts process on_failed jb w))) = 1)"
proof -
  from broker_run_shape [of jb opts process on_failed w] assms
  obtain n v where s: "fst (broker_run opts process on_failed jb w)
       = map (\<lambda>i. Retry (broker_backoff opts (1 + i))) [0..<n] @ [v]"
     "n < attempts opts"
     "v = Completed \<or> (\<exists>e. v = Exhausted e) \<and> n + 1 = attempts opts"
    by auto
  show ?thesis
    using s(2,3) by (intro exI [of _ n]) (auto simp: s(1) add.commute)
qed

lemma upt_lists:
  "[0..<2] = [0, 1::nat]" "[0..<3] = [0, 1, 2::nat]" "[0..<4] = [0, 1, 2, 3::nat]"
  by code_simp+

text \<open>
  C1. With the options of worker.js, a withdrawal job that starts with counter 0 is
  delivered at most 5 times, the delays between its deliveries are the first ones of
  10000, 20000, 40000, 80000 ms, and the terminal notification fires at most once; when
  every delivery raised, there are exactly 5 deliveries, all four delays, and exactly one
  notification. For a raw-broadcast job: at most 3 deliveries, delays 5000 and 10000 ms.
\<close>

theorem retry_contract:
  assumes "attemptsMade jb = 0"
  shows "length (fst (withdrawal_run rts eths jb w)) \<le> 5
    \<and> delays (fst (withdrawal_run rts eths jb w))
        = take (length (fst (withdrawal_run rts eths jb w)) - 1) [10000, 20000, 40000, 80000]
    \<and> length (notifications (fst (withdrawal_run rts eths jb w))) \<le> 1
    \<and> (Completed \<notin> set (fst (withdrawal_run rts eths jb w)) \<longrightarrow>
          length (fst (withdrawal_run rts eths jb w)) = 5
        \<and> delays (fst (withdrawal_run rts eths jb w)) = [10000, 20000, 40000, 80000]
        \<and> length (notifications (fst (withdrawal_run rts eths jb w))) = 1)
    \<and> length (fst (raw_broadcast_run eths jb w)) \<le> 3
    \<and> delays (fst (raw_broadcast_run eths jb w))
        = take (length (fst (raw_broadcast_run eths jb w)) - 1) [5000, 10000]
    \<and> length (notifications (fst (raw_broadcast_run eths jb w))) \<le> 1
    \<and> (Completed \<notin> set (fst (raw_broadcast_run eths jb w)) \<longrightarrow>
          length (fst (raw_broadcast_run eths jb w)) = 3
        \<and> delays (fst (raw_broadcast_run eths jb w)) = [5000, 10000]
        \<and> length (notifications (fst (raw_broadcast_run eths jb w))) = 1)"
proof -
  have b1: "map (\<lambda>i. broker_backoff multiSigWorker_options (Suc i)) [0..<n] = take n [10000, 20000, 40000, 80000]"
    if "n < 5" for n
  proof -
    from that have "n = 0 \<or> n = 1 \<or> n = 2 \<or> n = 3 \<or> n = 4" by arith
    then show ?thesis
      by (auto simp: broker_backoff_def multiSigWorker_options_def upt_lists)
  qed
  have b2: "map (\<lambda>i. broker_backoff rawTxBroadcastWorker_options (Suc i)) [0..<n] = take n [5000, 10000]"
    if "n < 3" for n
  proof -
    from that have "n = 0 \<or> n = 1 \<or> n = 2" by arith
    then show ?thesis
      by (auto simp: broker_backoff_def rawTxBroadcastWorker_options_def upt_lists)
  qed
  from run_contract [of jb multiSigWorker_options "\<lambda>k. multiSigWorker_process (rts k) (eths k)"
      multiSigWorker_on_failed w] assms
  obtain n where n: "n < 5" "length (fst (withdrawal_run rts eths jb w)) = n + 1"
    "delays (fst (withdrawal_run rts eths jb w)) = map (\<lambda>i. broker_backoff multiSigWorker_options (Suc i)) [0..<n]"
    "length (notifications (fst (withdrawal_run rts eths jb w))) \<le> 1"
    "Completed \<notin> set (fst (withdrawal_run rts eths jb w)) \<longrightarrow>
           n + 1 = 5 \<and> length (notifications (fst (withdrawal_run rts eths jb w))) = 1"
    by (auto simp: withdrawal_run_def multiSigWorker_options_def)
  from run_contract [of jb rawTxBroadcastWorker_options "\<lambda>k. rawTxBroadcastWorker_process (eths k)"
      rawTxBroadcastWorker_on_failed w] assms
  obtain m where m: "m < 3" "length (fst (raw_broadcast_run eths jb w)) = m + 1"
    "delays (fst (raw_broadcast_run eths jb w)) = map (\<lambda>i. broker_backoff rawTxBroadcastWorker_options (Suc i)) [0..<m]"
    "length (notifications (fst (raw_broadcast_run eths jb w))) \<le> 1"
    "Completed \<notin> set (fst (raw_broadcast_run eths jb w)) \<longrightarrow>
           m + 1 = 3 \<and> length (notifications (fst (raw_broadcast_run eths jb w))) = 1"
    by (auto simp: raw_broadcast_run_def rawTxBroadcastWorker_options_def)
  from n have W: "length (fst (withdrawal_run rts eths jb w)) \<le> 5
    \<and> delays (fst (withdrawal_run rts eths jb w))
        = take (length (fst (withdrawal_run rts eths jb w)) - 1) [10000, 20000, 40000, 80000]
    \<and> length (notifications (fst (withdrawal_run rts eths jb w))) \<le> 1
    \<and> (Completed \<notin> set (fst (withdrawal_run rts eths jb w)) \<longrightarrow>
          length (fst (withdrawal_run rts eths jb w)) = 5
        \<and> delays (fst (withdrawal_run rts eths jb w)) = [10000, 20000, 40000, 80000]
        \<and> length (notifications (fst (withdrawal_run rts eths jb w))) = 1)"
    by (auto simp: b1)
  from m have R: "length (fst (raw_broadcast_run eths jb w)) \<le> 3
    \<and> delays (fst (raw_broadcast_run eths jb w))
        = take (length (fst (raw_broadcast_run eths jb w)) - 1) [5000, 10000]
    \<and> length (notifications (fst (raw_broadcast_run eths jb w))) \<le> 1
    \<and> (Completed \<notin> set (fst (raw_broadcast_run eths jb w)) \<longrightarrow>
          length (fst (raw_broadcast_run eths jb w)) = 3
        \<and> delays (fst (raw_broadcast_run eths jb w)) = [5000, 10000]
        \<and> length (notifications (fst (raw_broadcast_run eths jb w))) = 1)"
    by (auto simp: b2)
  from W R show ?thesis by blast
qed

lemmas ex_defs = ex_world_def empty_world_def ex_job_def new_withdrawalRequest_def ex_data_def
  eth_ok_def eth_down_def eth_unconfirmed_def ex_fees_def ex_tx_def ex_tx_unconfirmed_def
  ex_raw_world_def ex_raw_row_def ex_raw_job_def rt_ok_def rt_store_down_def rt_no_key_def

lemmas run_defs = withdrawal_run_def multiSigWorker_options_def broker_deliver_def broker_backoff_def
  multiSigWorker_process_def load_withdrawalRequest_def multiSigWorker_try_def
  multiSigWorker_on_failed_def submit_transfer_def
  findUnique_withdrawalRequest_def update_withdrawalRequest_def call_def calls_def sendAlert_def
  apply_data_def data_PROCESSING_def data_BROADCASTED_def data_COMPLETED_def data_FAILED_def

lemmas raw_run_defs = raw_broadcast_run_def rawTxBroadcastWorker_options_def broker_deliver_def
  broker_backoff_def rawTxBroadcastWorker_process_def rawTxBroadcastWorker_on_failed_def
  findUnique_rawTransactionBroadcast_def update_rawTransactionBroadcast_def call_def sendAlert_def
  apply_raw_data_def

lemma ex_run_down:
  "fst (withdrawal_run (\<lambda>k. rt_ok) (\<lambda>k. eth_down) ex_job (ex_world ''PENDING_SIGNATURE''))
     = [Retry 10000, Retry 20000, Retry 40000, Retry 80000, Exhausted (Error ''nonce too low'')]"
  by (simp add: broker_run.simps run_defs ex_defs)

lemma ex_raw_run_down:
  "fst (raw_broadcast_run (\<lambda>k. eth_down) ex_raw_job ex_raw_world)
     = [Retry 5000, Retry 10000, Exhausted (Error ''nonce too low'')]"
  by (simp add: broker_run.simps raw_run_defs ex_defs)

theorem retry_contract_witness:
  "attemptsMade ex_job = 0
   \<and> Completed \<notin> set (fst (withdrawal_run (\<lambda>k. rt_ok) (\<lambda>k. eth_down) ex_job (ex_world ''PENDING_SIGNATURE'')))
   \<and> Completed \<notin> set (fst (raw_broadcast_run (\<lambda>k. eth_down) ex_raw_job ex_raw_world))
   \<and> length (fst (withdrawal_run (\<lambda>k. rt_ok) (\<lambda>k. eth_down) ex_job (ex_world ''PENDING_SIGNATURE''))) = 5
   \<and> delays (fst (withdrawal_run (\<lambda>k. rt_ok) (\<lambda>k. eth_down) ex_job (ex_world ''PENDING_SIGNATURE'')))
       = [10000, 20000, 40000, 80000]
   \<and> length (notifications (fst (withdrawal_run (\<lambda>k. rt_ok) (\<lambda>k. eth_down) ex_job (ex_world ''PENDING_SIGNATURE'')))) = 1
   \<and> length (fst (raw_broadcast_run (\<lambda>k. eth_down) ex_raw_job ex_raw_world)) = 3
   \<and> delays (fst (raw_broadcast_run (\<lambda>k. eth_down) ex_raw_job ex_raw_world)) = [5000, 10000]"
proof -
  have j: "attemptsMade ex_job = 0" "attemptsMade ex_raw_job = 0"
    by (simp_all add: ex_job_def ex_raw_job_def)
  have c: "Completed \<notin> set (fst (withdrawal_run (\<lambda>k. rt_ok) (\<lambda>k. eth_down) ex_job (ex_world ''PENDING_SIGNATURE'')))"
    "Completed \<notin> set (fst (raw_broadcast_run (\<lambda>k. eth_down) ex_raw_job ex_raw_world))"
    by (simp_all add: ex_run_down ex_raw_run_down)
  from retry_contract [OF j(1), of "\<lambda>k. rt_ok" "\<lambda>k. eth_down" "ex_world ''PENDING_SIGNATURE''"] c(1)
  have w: "length (fst (withdrawal_run (\<lambda>k. rt_ok) (\<lambda>k. eth_down) ex_job (ex_world ''PENDING_SIGNATURE''))) = 5
    \<and> delays (fst (withdrawal_run (\<lambda>k. rt_ok) (\<lambda>k. eth_down) ex_job (ex_world ''PENDING_SIGNATURE'')))
       = [10000, 20000, 40000, 80000]
    \<and> length (notifications (fst (withdrawal_run (\<lambda>k. rt_ok) (\<lambda>k. eth_down) ex_job (ex_world ''PENDING_SIGNATURE'')))) = 1"
    by blast
  from retry_contract [OF j(2), of "\<lambda>k. rt_ok" "\<lambda>k. eth_down" ex_raw_world] c(2)
  have r: "length (fst (raw_broadcast_run (\<lambda>k. eth_down) ex_raw_job ex_raw_world)) = 3
    \<and> delays (fst (raw_broadcast_run (\<lambda>k. eth_down) ex_raw_job ex_raw_world)) = [5000, 10000]"
    by blast
  from j c w r show ?thesis by blast
qed

section \<open>Retries exhausted\<close>








lemma effects_touch [simp]: "effects (touch k ds es w) = effects w @ es"
  by (simp add: touch_def)





section \<open>The listener on a completed request\<close>

definition ex_completed_world :: world where
  "ex_completed_world = empty_world\<lparr>withdrawalRequests :=
     [(new_withdrawalRequest ''c1'' ex_data)\<lparr>wr_status := ''COMPLETED'', wr_txHash := Some ''0xhash'',
        wr_history := [''PENDING_SIGNATURE'', ''PROCESSING'', ''BROADCASTED'', ''COMPLETED'']\<rparr>]\<rparr>"

lemma ex_completed_world_rows:
  "withdrawalRequests (snd (multiSigWorker_process rt_ok eth_ok ex_job (ex_world ''PENDING_SIGNATURE'')))
     = withdrawalRequests ex_completed_world"
  by (simp add: run_defs ex_defs ex_completed_world_def)

text \<open>
  C2. The \<^verbatim>\<open>failed\<close> listener has no skip guard. Called for a job whose request is
  COMPLETED (here the request as a successful delivery leaves it), it overwrites the
  status with FAILED, sets the error message and appends a history entry.
\<close>

theorem failed_listener_overwrites_completed:
  "map_option (\<lambda>r. (wr_status r, wr_txHash r, wr_errorMessage r, wr_history r))
      (findUnique_withdrawalRequest ''c1'' ex_completed_world)
     = Some (''COMPLETED'', Some ''0xhash'', None,
             [''PENDING_SIGNATURE'', ''PROCESSING'', ''BROADCASTED'', ''COMPLETED''])
   \<and> map_option (\<lambda>r. (wr_status r, wr_txHash r, wr_errorMessage r, wr_history r))
        (findUnique_withdrawalRequest ''c1''
           (snd (multiSigWorker_on_failed (ex_job\<lparr>attemptsMade := 4\<rparr>) (Error ''boom'') ex_completed_world)))
     = Some (''FAILED'', Some ''0xhash'', Some ''boom'',
             [''PENDING_SIGNATURE'', ''PROCESSING'', ''BROADCASTED'', ''COMPLETED'', ''FAILED''])"
  by (simp add: run_defs ex_defs ex_completed_world_def)

section \<open>A first attempt that raises before the PROCESSING write\<close>

text \<open>\<open>processing_entries\<close> counts the PROCESSING entries in the history of a request.\<close>

definition processing_entries :: "string \<Rightarrow> world \<Rightarrow> nat" where
  "processing_entries k w =
     (case findUnique_withdrawalRequest k w of None \<Rightarrow> 0
      | Some r \<Rightarrow> count_list (wr_history r) ''PROCESSING'')"

text \<open>
  C6. The PROCESSING write is tied to the attempt counter, not to the request's status.
  A first delivery (counter 0) that raises before its \<^verbatim>\<open>try\<close> block, because the store
  rejects the load (worker.js line 26) or because the wallet construction raises (line 38),
  writes nothing. The handler rethrows, so the job is delivered again, now with counter 1,
  and a delivery with a counter other than 0 skips the PROCESSING write. When that second
  delivery succeeds, the request goes from PENDING_SIGNATURE to BROADCASTED and ends
  COMPLETED with no PROCESSING entry in its history.
\<close>

theorem first_attempt_failure_loses_processing_entry:
  "attemptsMade ex_job = 0
   \<and> multiSigWorker_process rt_store_down eth_ok ex_job (ex_world ''PENDING_SIGNATURE'')
       = (Inl (Error ''Can not reach database server''), ex_world ''PENDING_SIGNATURE'')
   \<and> multiSigWorker_process rt_no_key eth_ok ex_job (ex_world ''PENDING_SIGNATURE'')
       = (Inl (Error ''invalid private key''), ex_world ''PENDING_SIGNATURE'')
   \<and> fst (multiSigWorker_process rt_ok eth_ok (ex_job\<lparr>attemptsMade := 1\<rparr>) (ex_world ''PENDING_SIGNATURE''))
       = Inr ()
   \<and> map_option (\<lambda>r. (wr_status r, wr_history r))
        (findUnique_withdrawalRequest ''c1''
           (snd (multiSigWorker_process rt_ok eth_ok (ex_job\<lparr>attemptsMade := 1\<rparr>)
                  (ex_world ''PENDING_SIGNATURE''))))
       = Some (''COMPLETED'', [''PENDING_SIGNATURE'', ''BROADCASTED'', ''COMPLETED''])
   \<and> processing_entries ''c1''
        (snd (multiSigWorker_process rt_ok eth_ok (ex_job\<lparr>attemptsMade := 1\<rparr>)
               (ex_world ''PENDING_SIGNATURE'')))
       = 0"
  by (simp add: processing_entries_def run_defs ex_defs)

section \<open>Status transitions\<close>

text \<open>
  The status transitions a history records, and the edges of the graph as the spec states
  it: from PENDING_SIGNATURE to PROCESSING or CANCELLED, from PROCESSING to BROADCASTED or
  FAILED, from BROADCASTED to COMPLETED.
\<close>

fun transitions :: "string list \<Rightarrow> (string \<times> string) list" where
  "transitions (a # b # xs) = (a, b) # transitions (b # xs)"
| "transitions xs = []"

definition spec_edges :: "(string \<times> string) list" where
  "spec_edges = [(''PENDING_SIGNATURE'', ''PROCESSING''), (''PENDING_SIGNATURE'', ''CANCELLED''),
     (''PROCESSING'', ''BROADCASTED''), (''PROCESSING'', ''FAILED''), (''BROADCASTED'', ''COMPLETED'')]"

fun transfers :: "effect list \<Rightarrow> (string \<times> string \<times> int) list" where
  "transfers [] = []"
| "transfers (Call_transfer signer token dest amt ov # es) = (token, dest, amt) # transfers es"
| "transfers (e # es) = transfers es"

text \<open>
  The world a first delivery leaves when the transfer was submitted and the confirmation
  wait raised: the request is BROADCASTED, and the handler has rethrown.
\<close>

definition ex_unconfirmed_world :: world where
  "ex_unconfirmed_world =
     snd (multiSigWorker_process rt_ok eth_unconfirmed ex_job (ex_world ''PENDING_SIGNATURE''))"

text \<open>
  C3. The handler takes edges that are not in the graph. Its guard lets every status
  but COMPLETED and CANCELLED through, so the retry of a job whose first delivery raised
  at the confirmation wait finds the request BROADCASTED, submits the transfer a second
  time and writes BROADCASTED again, before COMPLETED. And when the retries of such a job
  fail at the submission, they leave the request BROADCASTED, and the \<^verbatim>\<open>failed\<close> listener
  then writes FAILED over BROADCASTED. \<open>transfers\<close> lists the transfers submitted, each
  with token, destination and amount.
\<close>

theorem retry_after_broadcast_leaves_graph:
  "fst (multiSigWorker_process rt_ok eth_unconfirmed ex_job (ex_world ''PENDING_SIGNATURE''))
     = Inl (Error ''timeout'')
   \<and> map_option (\<lambda>r. (wr_status r, wr_history r)) (findUnique_withdrawalRequest ''c1'' ex_unconfirmed_world)
       = Some (''BROADCASTED'', [''PENDING_SIGNATURE'', ''PROCESSING'', ''BROADCASTED''])
   \<and> fst (multiSigWorker_process rt_ok eth_ok (ex_job\<lparr>attemptsMade := 1\<rparr>) ex_unconfirmed_world) = Inr ()
   \<and> map_option wr_history (findUnique_withdrawalRequest ''c1''
        (snd (multiSigWorker_process rt_ok eth_ok (ex_job\<lparr>attemptsMade := 1\<rparr>) ex_unconfirmed_world)))
       = Some [''PENDING_SIGNATURE'', ''PROCESSING'', ''BROADCASTED'', ''BROADCASTED'', ''COMPLETED'']
   \<and> (''BROADCASTED'', ''BROADCASTED'')
       \<in> set (transitions [''PENDING_SIGNATURE'', ''PROCESSING'', ''BROADCASTED'', ''BROADCASTED'', ''COMPLETED''])
   \<and> (''BROADCASTED'', ''BROADCASTED'') \<notin> set spec_edges
   \<and> transfers (effects
        (snd (multiSigWorker_process rt_ok eth_ok (ex_job\<lparr>attemptsMade := 1\<rparr>) ex_unconfirmed_world)))
       = [(''0xU'', ''0xD'', 1500000000), (''0xU'', ''0xD'', 1500000000)]
   \<and> multiSigWorker_process rt_ok eth_down (ex_job\<lparr>attemptsMade := 4\<rparr>) ex_unconfirmed_world
       = (Inl (Error ''nonce too low''),
          calls [Call_decimals ''0xU'', Call_getFeeData,
                 Call_transfer ''key'' ''0xU'' ''0xD'' 1500000000
                   \<lparr>o_maxFeePerGas = Some 30, o_maxPriorityFeePerGas = Some 2\<rparr>] ex_unconfirmed_world)
   \<and> map_option wr_history (findUnique_withdrawalRequest ''c1''
        (snd (multiSigWorker_on_failed (ex_job\<lparr>attemptsMade := 4\<rparr>) (Error ''nonce too low'')
               (snd (multiSigWorker_process rt_ok eth_down (ex_job\<lparr>attemptsMade := 4\<rparr>)
                      ex_unconfirmed_world)))))
       = Some [''PENDING_SIGNATURE'', ''PROCESSING'', ''BROADCASTED'', ''FAILED'']
   \<and> (''BROADCASTED'', ''FAILED'')
       \<in> set (transitions [''PENDING_SIGNATURE'', ''PROCESSING'', ''BROADCASTED'', ''FAILED''])
   \<and> (''BROADCASTED'', ''FAILED'') \<notin> set spec_edges"
  by (simp add: ex_unconfirmed_world_def spec_edges_def run_defs ex_defs)

end
